theory Spec2Isabelle
  imports Complex_Main "HOL-Library.Word" "HOL-Library.Sublist"
begin

unbundle bit_operations_syntax

section \<open>The ImageMagick loader: \<^verbatim>\<open>src/imageio/imageio_im.c\<close>\<close>

subsection \<open>The glib string functions used by \<^verbatim>\<open>_supported_image\<close>\<close>

text \<open>
  A C string is modelled by the list of its characters before the terminating NUL.
  \<^verbatim>\<open>g_ascii_tolower\<close> changes the 26 upper-case ASCII letters only.
\<close>

definition g_ascii_tolower :: "char \<Rightarrow> char" where
  "g_ascii_tolower c =
     (if (65::nat) \<le> of_char c \<and> of_char c \<le> (90::nat)
      then char_of (of_char c + (32::nat)) else c)"

text \<open>
  \<^verbatim>\<open>g_ascii_strncasecmp(s1, s2, n)\<close>: the loop runs while \<^verbatim>\<open>n\<close> is positive and neither string
  has ended, and returns the difference of the first pair of lower-cased characters that
  differ; when it stops with \<^verbatim>\<open>n\<close> still positive the result is \<^verbatim>\<open>*s1 - *s2\<close>, where the
  end of a string reads as 0.
\<close>

fun g_ascii_strncasecmp :: "string \<Rightarrow> string \<Rightarrow> nat \<Rightarrow> int" where
  "g_ascii_strncasecmp s1 s2 0 = 0"
| "g_ascii_strncasecmp [] [] (Suc n) = 0"
| "g_ascii_strncasecmp [] (c2 # s2) (Suc n) = 0 - int (of_char c2)"
| "g_ascii_strncasecmp (c1 # s1) [] (Suc n) = int (of_char c1)"
| "g_ascii_strncasecmp (c1 # s1) (c2 # s2) (Suc n) =
     (if g_ascii_tolower c1 \<noteq> g_ascii_tolower c2
      then int (of_char (g_ascii_tolower c1)) - int (of_char (g_ascii_tolower c2))
      else g_ascii_strncasecmp s1 s2 n)"

text \<open>
  \<^verbatim>\<open>g_strrstr(haystack, needle)\<close>: a pointer to the last occurrence of the needle, that is
  the rest of the haystack from there on, or NULL (\<open>None\<close>). An empty needle gives the
  haystack itself.
\<close>

fun last_occurrence :: "string \<Rightarrow> string \<Rightarrow> string option" where
  "last_occurrence [] needle = None"
| "last_occurrence (c # cs) needle =
     (case last_occurrence cs needle of
        Some p \<Rightarrow> Some p
      | None \<Rightarrow> if prefix needle (c # cs) then Some (c # cs) else None)"

definition g_strrstr :: "string \<Rightarrow> string \<Rightarrow> string option" where
  "g_strrstr haystack needle =
     (if needle = [] then Some haystack else last_occurrence haystack needle)"

subsection \<open>\<^verbatim>\<open>_supported_image\<close>\<close>

definition extensions_whitelist :: "string list" where
  "extensions_whitelist =
     [''tiff'', ''tif'',
      ''pam'', ''pbm'', ''pgm'', ''ppm'', ''pnm'',
      ''jpc'', ''jp2'', ''jpf'', ''jpx'',
      ''bmp'', ''miff'', ''dcm'', ''jng'', ''mng'', ''gif'',
      ''fits'', ''fit'', ''fts'',
      ''cin'', ''dpx'',
      ''jxl'',
      ''webp'']"

text \<open>The \<^verbatim>\<open>for\<close> loop over the whitelist, left at the first entry that compares equal.\<close>

fun whitelist_loop :: "string \<Rightarrow> string list \<Rightarrow> bool" where
  "whitelist_loop ext [] = False"
| "whitelist_loop ext (i # rest) =
     (if g_ascii_strncasecmp ext i (length i) = 0 then True
      else whitelist_loop ext rest)"

text \<open>
  The first argument stands for the build option \<^verbatim>\<open>HAVE_IMAGEMAGICK7\<close>. \<^verbatim>\<open>ext++\<close> steps
  over the dot that \<^verbatim>\<open>g_strrstr\<close> found.
\<close>

definition supported_image :: "bool \<Rightarrow> string \<Rightarrow> bool" where
  "supported_image HAVE_IMAGEMAGICK7 fname =
     (case g_strrstr fname ''.'' of
        None \<Rightarrow> False
      | Some p \<Rightarrow>
          (let ext = tl p;
               supported = whitelist_loop ext extensions_whitelist
           in if HAVE_IMAGEMAGICK7
              then supported \<or> g_ascii_strncasecmp ext ''qoi'' 3 = 0
              else supported))"

subsection \<open>The image record and the loader's surroundings\<close>

text \<open>
  Of the enumerations declared outside this file only the enumerators the loader names
  are spelled out; the last constructor of each stands for all the others.
\<close>

datatype dt_imageio_retval_t =
    DT_IMAGEIO_OK
  | DT_IMAGEIO_FILE_NOT_FOUND
  | DT_IMAGEIO_LOAD_FAILED
  | DT_IMAGEIO_CACHE_FULL

datatype dt_iop_buffer_type_t = TYPE_FLOAT | TYPE_OTHER nat

datatype dt_iop_colorspace_type_t = IOP_CS_RGB | IOP_CS_OTHER nat

datatype dt_image_loader_t = LOADER_IM | LOADER_OTHER nat

datatype ColorspaceType = CMYColorspace | CMYKColorspace | OtherColorspace nat

record dt_iop_buffer_dsc_t =
  channels :: nat
  datatype' :: dt_iop_buffer_type_t
  cst :: dt_iop_colorspace_type_t
  filters :: "32 word"

text \<open>
  The fields of \<^verbatim>\<open>dt_image_t\<close> that the loader reads or writes. \<open>profile\<close> is the pointer
  \<^verbatim>\<open>img->profile\<close>: \<open>None\<close> is NULL, \<open>Some bs\<close> a block holding the bytes \<open>bs\<close>.
\<close>

record dt_image_t =
  exif_inited :: bool
  width :: nat
  height :: nat
  buf_dsc :: dt_iop_buffer_dsc_t
  flags :: "32 word"
  profile :: "8 word list option"
  profile_size :: nat
  loader :: dt_image_loader_t

text \<open>
  The bit masks of the image flags are declared in \<^verbatim>\<open>common/image.h\<close>, outside the two
  files; they are a parameter of the model.
\<close>

record dt_image_flags_t =
  DT_IMAGE_LDR :: "32 word"
  DT_IMAGE_RAW :: "32 word"
  DT_IMAGE_HDR :: "32 word"
  DT_IMAGE_S_RAW :: "32 word"

text \<open>
  What the loader calls and cannot see into: the MagickWand library, the EXIF reader,
  the mipmap cache and the allocator. Each field is the answer of the call of the same
  name. \<open>'a\<close> is the type of a \<^verbatim>\<open>float\<close>; the pixel buffer \<^verbatim>\<open>float *mipbuf\<close> is a store from
  indices to floats. \<^verbatim>\<open>MagickExportImagePixels\<close> receives x, y, columns, rows, the channel
  map and the buffer, and returns its status with the buffer as it left it.
  \<^verbatim>\<open>MagickGetImageProfile\<close> returns the profile's bytes (their number is the length it
  reports) or NULL.
\<close>

record 'a extern =
  dt_exif_read :: "dt_image_t \<Rightarrow> string \<Rightarrow> dt_image_t"
  NewMagickWand :: bool
  MagickReadImage :: "string \<Rightarrow> bool"
  MagickGetImageWidth :: nat
  MagickGetImageHeight :: nat
  dt_mipmap_cache_alloc :: "dt_image_t \<Rightarrow> (nat \<Rightarrow> 'a) option"
  MagickGetImageColorspace :: ColorspaceType
  MagickExportImagePixels ::
    "nat \<Rightarrow> nat \<Rightarrow> nat \<Rightarrow> nat \<Rightarrow> string \<Rightarrow> (nat \<Rightarrow> 'a) \<Rightarrow> bool \<times> (nat \<Rightarrow> 'a)"
  MagickGetImageProfile :: "string \<Rightarrow> 8 word list option"
  g_try_malloc0 :: "nat \<Rightarrow> bool"

text \<open>The steps of one call, in the order they are taken.\<close>

datatype step =
    Call_dt_exif_read
  | Call_NewMagickWand
  | Call_MagickReadImage string
  | Call_MagickGetImageWidth
  | Call_MagickGetImageHeight
  | Call_dt_mipmap_cache_alloc
  | Call_MagickGetImageColorspace
  | Call_MagickExportImagePixels nat nat nat nat string
  | Loop_CMYK_to_RGB
  | Call_MagickGetImageProfile string
  | Call_g_try_malloc0 nat
  | Call_memcpy nat
  | Call_MagickRelinquishMemory
  | Call_DestroyMagickWand

record 'a outcome =
  retval :: dt_imageio_retval_t
  img_out :: dt_image_t
  mipbuf_out :: "(nat \<Rightarrow> 'a) option"
  steps :: "step list"

subsection \<open>The CMYK fixup loop\<close>

text \<open>
  \<^verbatim>\<open>for(size_t index = 0; index < n; index += 4)\<close> with the three assignments of the
  body, each reading the buffer as the one before left it.
\<close>

function cmyk_to_rgb ::
  "nat \<Rightarrow> nat \<Rightarrow> (nat \<Rightarrow> 'a::{one,minus,times}) \<Rightarrow> (nat \<Rightarrow> 'a)" where
  "cmyk_to_rgb index n mipbuf =
     (if index < n then
        (let black = mipbuf (index + 3);
             m1 = mipbuf(index := (1 - black) * (1 - mipbuf index));
             m2 = m1(index + 1 := (1 - black) * (1 - m1 (index + 1)));
             m3 = m2(index + 2 := (1 - black) * (1 - m2 (index + 2)))
         in cmyk_to_rgb (index + 4) n m3)
      else mipbuf)"
  by pat_completeness auto
termination
  by (relation "measure (\<lambda>(index, n, mipbuf). n - index)") auto

declare cmyk_to_rgb.simps [simp del]

subsection \<open>\<^verbatim>\<open>dt_imageio_open_im\<close>\<close>

text \<open>\<^verbatim>\<open>memcpy(dst, src, n)\<close> on byte blocks.\<close>

definition memcpy :: "8 word list \<Rightarrow> 8 word list \<Rightarrow> nat \<Rightarrow> 8 word list" where
  "memcpy dst src n = take n src @ drop n dst"

text \<open>
  Lines 153 to 174: ask for the \<^verbatim>\<open>icc\<close> profile, then for \<^verbatim>\<open>icm\<close> if there was none, and
  copy what was found into a zeroed block of the same length.
\<close>

definition copy_profile :: "'a extern \<Rightarrow> dt_image_t \<Rightarrow> dt_image_t \<times> step list" where
  "copy_profile E img =
     (let icc = MagickGetImageProfile E ''icc'';
          profile_data =
            (if icc = None then MagickGetImageProfile E ''icm'' else icc);
          asked = Call_MagickGetImageProfile ''icc'' #
            (if icc = None then [Call_MagickGetImageProfile ''icm''] else [])
      in case profile_data of
           None \<Rightarrow> (img, asked)
         | Some bytes \<Rightarrow>
             (let profile_length = length bytes
              in if g_try_malloc0 E profile_length
                 then (img\<lparr>profile :=
                              Some (memcpy (replicate profile_length 0) bytes profile_length),
                            profile_size := profile_length\<rparr>,
                       asked @ [Call_g_try_malloc0 profile_length,
                                Call_memcpy profile_length,
                                Call_MagickRelinquishMemory])
                 else (img\<lparr>profile := None\<rparr>,
                       asked @ [Call_g_try_malloc0 profile_length,
                                Call_MagickRelinquishMemory])))"

text \<open>Lines 182 to 189: the buffer descriptor, the flags and the loader.\<close>

definition set_ldr_rgb :: "dt_image_flags_t \<Rightarrow> dt_image_t \<Rightarrow> dt_image_t" where
  "set_ldr_rgb F img =
     (let i1 = img\<lparr>buf_dsc := (buf_dsc img)\<lparr>cst := IOP_CS_RGB\<rparr>\<rparr>;
          i2 = i1\<lparr>buf_dsc := (buf_dsc i1)\<lparr>filters := 0\<rparr>\<rparr>;
          i3 = i2\<lparr>flags := flags i2 AND NOT (DT_IMAGE_RAW F)\<rparr>;
          i4 = i3\<lparr>flags := flags i3 AND NOT (DT_IMAGE_S_RAW F)\<rparr>;
          i5 = i4\<lparr>flags := flags i4 AND NOT (DT_IMAGE_HDR F)\<rparr>;
          i6 = i5\<lparr>flags := flags i5 OR DT_IMAGE_LDR F\<rparr>
      in i6\<lparr>loader := LOADER_IM\<rparr>)"

definition is_cmyk :: "ColorspaceType \<Rightarrow> bool" where
  "is_cmyk colorspace = (colorspace = CMYColorspace \<or> colorspace = CMYKColorspace)"

text \<open>Lines 83 and 84: the EXIF data are read unless they were read before.\<close>

definition read_exif :: "'a extern \<Rightarrow> dt_image_t \<Rightarrow> string \<Rightarrow> dt_image_t" where
  "read_exif E img fname =
     (if \<not> exif_inited img then dt_exif_read E img fname else img)"

text \<open>Lines 103 to 107: the dimensions and the layout of the buffer.\<close>

definition set_dimensions :: "'a extern \<Rightarrow> dt_image_t \<Rightarrow> dt_image_t" where
  "set_dimensions E img =
     (let i1 = img\<lparr>width := MagickGetImageWidth E\<rparr>;
          i2 = i1\<lparr>height := MagickGetImageHeight E\<rparr>;
          i3 = i2\<lparr>buf_dsc := (buf_dsc i2)\<lparr>channels := 4\<rparr>\<rparr>
      in i3\<lparr>buf_dsc := (buf_dsc i3)\<lparr>datatype' := TYPE_FLOAT\<rparr>\<rparr>)"

text \<open>
  Line 144: the bound of the loop, \<^verbatim>\<open>img->width * img->height * 4\<close>, is evaluated in the type
  of the two fields and then converted to \<^verbatim>\<open>size_t\<close> for the comparison with \<^verbatim>\<open>index\<close>.
\<close>

text \<open>
  Modelled from the spec: the type of the two fields is declared in \<^verbatim>\<open>common/image.h\<close>,
  outside the two files; it is \<^verbatim>\<open>int32_t\<close> there, and \<^verbatim>\<open>size_t\<close> has 64 bits. The record keeps
  the numbers the library reported, the product is formed from their low 32 bits. C leaves
  the overflow of a signed product undefined; the model takes the two's complement result,
  which is what the multiplication of the processor yields, and extends its sign to 64
  bits.
\<close>

definition cmyk_loop_bound :: "nat \<Rightarrow> nat \<Rightarrow> nat" where
  "cmyk_loop_bound w h =
     unat (scast ((word_of_nat w :: 32 word) * word_of_nat h * 4) :: 64 word)"

text \<open>
  The whole function. Every \<^verbatim>\<open>goto error\<close> ends with \<^verbatim>\<open>DestroyMagickWand\<close> and the value
  of \<^verbatim>\<open>err\<close> at that point. The result holds the return value, the image record and the
  buffer as the call leaves them, and the steps taken.
\<close>

definition dt_imageio_open_im ::
  "dt_image_flags_t \<Rightarrow> bool \<Rightarrow> ('a::{one,minus,times}) extern \<Rightarrow> dt_image_t \<Rightarrow> string
     \<Rightarrow> 'a outcome" where
  "dt_imageio_open_im F HAVE_IMAGEMAGICK7 E img fname =
     (if \<not> supported_image HAVE_IMAGEMAGICK7 fname
      then \<lparr>retval = DT_IMAGEIO_LOAD_FAILED, img_out = img, mipbuf_out = None, steps = []\<rparr>
      else
        (let img1 = read_exif E img fname;
             s1 = (if \<not> exif_inited img then [Call_dt_exif_read] else [])
                    @ [Call_NewMagickWand]
         in if \<not> NewMagickWand E
            then \<lparr>retval = DT_IMAGEIO_LOAD_FAILED, img_out = img1, mipbuf_out = None,
                  steps = s1 @ [Call_DestroyMagickWand]\<rparr>
            else if \<not> MagickReadImage E fname
            then \<lparr>retval = DT_IMAGEIO_FILE_NOT_FOUND, img_out = img1, mipbuf_out = None,
                  steps = s1 @ [Call_MagickReadImage fname, Call_DestroyMagickWand]\<rparr>
            else
              (let img2 = set_dimensions E img1;
                   s2 = s1 @ [Call_MagickReadImage fname, Call_MagickGetImageWidth,
                              Call_MagickGetImageHeight, Call_dt_mipmap_cache_alloc]
               in case dt_mipmap_cache_alloc E img2 of
                    None \<Rightarrow>
                      \<lparr>retval = DT_IMAGEIO_CACHE_FULL, img_out = img2, mipbuf_out = None,
                       steps = s2 @ [Call_DestroyMagickWand]\<rparr>
                  | Some mipbuf \<Rightarrow>
                      (let colorspace = MagickGetImageColorspace E;
                           colormap = (if is_cmyk colorspace then ''CMYK'' else ''RGBP'');
                           (ret, exported) =
                             MagickExportImagePixels E 0 0 (width img2) (height img2)
                               colormap mipbuf;
                           s3 = s2 @ [Call_MagickGetImageColorspace,
                                      Call_MagickExportImagePixels 0 0 (width img2)
                                        (height img2) colormap]
                       in if \<not> ret
                          then \<lparr>retval = DT_IMAGEIO_LOAD_FAILED, img_out = img2,
                                mipbuf_out = Some exported,
                                steps = s3 @ [Call_DestroyMagickWand]\<rparr>
                          else
                            (let fixed =
                                   (if is_cmyk colorspace
                                    then cmyk_to_rgb 0 (cmyk_loop_bound (width img2) (height img2))
                                           exported
                                    else exported);
                                 s4 = s3 @ (if is_cmyk colorspace then [Loop_CMYK_to_RGB]
                                            else []);
                                 (img3, s5) = copy_profile E img2
                             in \<lparr>retval = DT_IMAGEIO_OK, img_out = set_ldr_rgb F img3,
                                 mipbuf_out = Some fixed,
                                 steps = s4 @ s5 @ [Call_DestroyMagickWand]\<rparr>)))))"

section \<open>The lighttable layout tool: \<^verbatim>\<open>src/libs/tools/lighttable.c\<close>\<close>

subsection \<open>Types and constants declared outside the file\<close>

text \<open>
  \<^verbatim>\<open>dt_lighttable_layout_t\<close> is a C enumeration, so a layout is an integer: the module reads
  it from the configuration without a check against the enumerators. The enumerators are
  declared in \<^verbatim>\<open>views/view.h\<close>, outside the two files, as is \<^verbatim>\<open>DT_LIGHTTABLE_MAX_ZOOM\<close>; their
  values are a parameter of the model.
\<close>

type_synonym dt_lighttable_layout_t = int

record view_h =
  DT_LIGHTTABLE_LAYOUT_FIRST :: int
  DT_LIGHTTABLE_LAYOUT_ZOOMABLE :: int
  DT_LIGHTTABLE_LAYOUT_FILEMANAGER :: int
  DT_LIGHTTABLE_LAYOUT_CULLING :: int
  DT_LIGHTTABLE_LAYOUT_CULLING_DYNAMIC :: int
  DT_LIGHTTABLE_LAYOUT_PREVIEW :: int
  DT_LIGHTTABLE_LAYOUT_LAST :: int
  DT_LIGHTTABLE_MAX_ZOOM :: int

datatype dt_lighttable_culling_restriction_t =
    DT_LIGHTTABLE_CULLING_RESTRICTION_AUTO
  | DT_LIGHTTABLE_CULLING_RESTRICTION_SELECTION
  | DT_LIGHTTABLE_CULLING_RESTRICTION_COLLECTION

text \<open>
  The effects and elements of a shortcut that the two action callbacks tell apart; the
  last constructor stands for every other effect.
\<close>

datatype dt_action_effect_t =
    DT_ACTION_EFFECT_ON
  | DT_ACTION_EFFECT_OFF
  | DT_ACTION_EFFECT_HOLD_TOGGLE
  | DT_ACTION_EFFECT_OTHER nat

definition DT_ACTION_ELEMENT_PREVIEW_FOCUS_DETECT :: nat where
  "DT_ACTION_ELEMENT_PREVIEW_FOCUS_DETECT = 1"

definition DT_ACTION_ELEMENT_PREVIEW_NO_RESTRICTION :: nat where
  "DT_ACTION_ELEMENT_PREVIEW_NO_RESTRICTION = 2"

definition DT_ACTION_ELEMENT_CULLING_NO_RESTRICTION :: nat where
  "DT_ACTION_ELEMENT_CULLING_NO_RESTRICTION = 1"

subsection \<open>The state\<close>

text \<open>A widget pointer.\<close>

type_synonym GtkWidget = nat

record dt_lib_tool_lighttable_t =
  zoom :: GtkWidget
  layout_box :: GtkWidget
  layout_filemanager :: GtkWidget
  layout_zoomable :: GtkWidget
  layout_culling_dynamic :: GtkWidget
  layout_culling_fix :: GtkWidget
  layout_culling_restricted :: GtkWidget
  layout_preview :: GtkWidget
  layout :: dt_lighttable_layout_t
  base_layout :: dt_lighttable_layout_t
  current_zoom :: int
  fullpreview_focus :: bool
  culling_init_restriction :: dt_lighttable_culling_restriction_t

text \<open>
  What GTK keeps for the widgets of the module: how many widgets were created (a new
  widget gets the next number as its pointer), the state of the toggle buttons, the
  tooltips, sensitivity and visibility, the number shown by the spin button, the children
  of a box in their order, and the widgets queued for redrawing.
\<close>

record gtk_t =
  widget_count :: nat
  toggle_active :: "GtkWidget \<Rightarrow> bool"
  tooltip_text :: "GtkWidget \<Rightarrow> string"
  sensitive :: "GtkWidget \<Rightarrow> bool"
  visible :: "GtkWidget \<Rightarrow> bool"
  spin_value :: "GtkWidget \<Rightarrow> int"
  container_children :: "GtkWidget \<Rightarrow> GtkWidget list"
  draw_queue :: "GtkWidget list"

text \<open>
  The lighttable part of the view manager: the full preview with the arguments it was
  entered with, and the restriction of culling.
\<close>

record dt_view_manager_t =
  preview_state :: bool
  preview_sticky :: bool
  preview_focus :: bool
  preview_restriction :: dt_lighttable_culling_restriction_t
  culling_restricted_state :: dt_lighttable_culling_restriction_t

text \<open>
  Everything the module touches: its own data (\<^verbatim>\<open>self->data\<close>, allocated by \<^verbatim>\<open>gui_init\<close>
  before any callback is connected), the view manager, GTK, the configuration, the number
  of selected images, the redraw requests for the center view, and the zoom changes
  passed on to the thumbtable.
\<close>

record darktable_t =
  data :: dt_lib_tool_lighttable_t
  view_manager :: dt_view_manager_t
  gtk :: gtk_t
  conf :: "string \<Rightarrow> int"
  selected_count :: nat
  redraw_center :: nat
  thumbtable_zoom_changed :: "(int \<times> int) list"

subsection \<open>Functions of the application and of GTK that the module calls\<close>

text \<open>
  Modelled from the spec: the view manager (\<^verbatim>\<open>views/view.c\<close>) is not among the sources. The
  module mirrors "application-wide view-manager state": the getters read that state and
  the setters store their arguments in it.
\<close>

definition dt_view_lighttable_preview_state :: "dt_view_manager_t \<Rightarrow> bool" where
  "dt_view_lighttable_preview_state vm = preview_state vm"

definition dt_view_lighttable_set_preview_state ::
  "dt_view_manager_t \<Rightarrow> bool \<Rightarrow> bool \<Rightarrow> bool \<Rightarrow> dt_lighttable_culling_restriction_t
     \<Rightarrow> dt_view_manager_t" where
  "dt_view_lighttable_set_preview_state vm state sticky focus restriction =
     vm\<lparr>preview_state := state, preview_sticky := sticky, preview_focus := focus,
        preview_restriction := restriction\<rparr>"

definition dt_view_lighttable_culling_restricted_state ::
  "dt_view_manager_t \<Rightarrow> dt_lighttable_culling_restriction_t" where
  "dt_view_lighttable_culling_restricted_state vm = culling_restricted_state vm"

definition dt_view_lighttable_set_culling_restricted_state ::
  "dt_view_manager_t \<Rightarrow> dt_lighttable_culling_restriction_t \<Rightarrow> dt_view_manager_t" where
  "dt_view_lighttable_set_culling_restricted_state vm restriction =
     vm\<lparr>culling_restricted_state := restriction\<rparr>"

text \<open>
  Modelled from the spec: the configuration (\<^verbatim>\<open>control/conf.c\<close>) is not among the sources. It
  is the "persisted" store of integers by key.
\<close>

definition dt_conf_get_int :: "darktable_t \<Rightarrow> string \<Rightarrow> int" where
  "dt_conf_get_int s key = conf s key"

definition dt_conf_set_int :: "darktable_t \<Rightarrow> string \<Rightarrow> int \<Rightarrow> darktable_t" where
  "dt_conf_set_int s key v = s\<lparr>conf := (conf s)(key := v)\<rparr>"

definition dt_control_queue_redraw_center :: "darktable_t \<Rightarrow> darktable_t" where
  "dt_control_queue_redraw_center s = s\<lparr>redraw_center := redraw_center s + 1\<rparr>"

definition dt_thumbtable_zoom_changed :: "darktable_t \<Rightarrow> int \<Rightarrow> int \<Rightarrow> darktable_t" where
  "dt_thumbtable_zoom_changed s oldzoom newzoom =
     s\<lparr>thumbtable_zoom_changed := thumbtable_zoom_changed s @ [(oldzoom, newzoom)]\<rparr>"

definition dt_collection_get_selected_count :: "darktable_t \<Rightarrow> nat" where
  "dt_collection_get_selected_count s = selected_count s"

text \<open>The GTK setters used on the buttons.\<close>

definition gtk_toggle_button_set_active :: "gtk_t \<Rightarrow> GtkWidget \<Rightarrow> bool \<Rightarrow> gtk_t" where
  "gtk_toggle_button_set_active g w is_active =
     g\<lparr>toggle_active := (toggle_active g)(w := is_active)\<rparr>"

definition gtk_toggle_button_get_active :: "gtk_t \<Rightarrow> GtkWidget \<Rightarrow> bool" where
  "gtk_toggle_button_get_active g w = toggle_active g w"

definition gtk_widget_queue_draw :: "gtk_t \<Rightarrow> GtkWidget \<Rightarrow> gtk_t" where
  "gtk_widget_queue_draw g w = g\<lparr>draw_queue := draw_queue g @ [w]\<rparr>"

definition gtk_widget_set_tooltip_text :: "gtk_t \<Rightarrow> GtkWidget \<Rightarrow> string \<Rightarrow> gtk_t" where
  "gtk_widget_set_tooltip_text g w txt = g\<lparr>tooltip_text := (tooltip_text g)(w := txt)\<rparr>"

definition gtk_widget_set_sensitive :: "gtk_t \<Rightarrow> GtkWidget \<Rightarrow> bool \<Rightarrow> gtk_t" where
  "gtk_widget_set_sensitive g w b = g\<lparr>sensitive := (sensitive g)(w := b)\<rparr>"

definition gtk_widget_set_visible :: "gtk_t \<Rightarrow> GtkWidget \<Rightarrow> bool \<Rightarrow> gtk_t" where
  "gtk_widget_set_visible g w b = g\<lparr>visible := (visible g)(w := b)\<rparr>"

definition gtk_container_get_children :: "gtk_t \<Rightarrow> GtkWidget \<Rightarrow> GtkWidget list" where
  "gtk_container_get_children g w = container_children g w"

subsection \<open>The zoom\<close>

text \<open>\<^verbatim>\<open>_set_zoom\<close>, lines 548 to 561.\<close>

definition set_zoom :: "view_h \<Rightarrow> darktable_t \<Rightarrow> int \<Rightarrow> darktable_t" where
  "set_zoom L s z =
     (if layout (data s) = DT_LIGHTTABLE_LAYOUT_CULLING L
      then dt_control_queue_redraw_center
             (dt_conf_set_int s ''plugins/lighttable/culling_num_images'' z)
      else if layout (data s) = DT_LIGHTTABLE_LAYOUT_FILEMANAGER L
              \<or> layout (data s) = DT_LIGHTTABLE_LAYOUT_ZOOMABLE L
      then (let s1 = dt_conf_set_int s ''plugins/lighttable/images_in_row'' z
            in dt_thumbtable_zoom_changed s1 (current_zoom (data s1)) z)
      else s)"

text \<open>
  \<^verbatim>\<open>_lib_lighttable_zoom_slider_changed\<close>, lines 563 to 570: the handler of the spin button's
  \<^verbatim>\<open>value-changed\<close> signal.
\<close>

definition lib_lighttable_zoom_slider_changed ::
  "view_h \<Rightarrow> darktable_t \<Rightarrow> GtkWidget \<Rightarrow> darktable_t" where
  "lib_lighttable_zoom_slider_changed L s widget =
     (let i = spin_value (gtk s) widget;
          s1 = set_zoom L s i
      in s1\<lparr>data := (data s1)\<lparr>current_zoom := i\<rparr>\<rparr>)"

text \<open>
  \<^verbatim>\<open>gtk_spin_button_set_value\<close> on the spin button \<^verbatim>\<open>d->zoom\<close>, which \<^verbatim>\<open>gui_init\<close> creates with
  the range from 1 to \<^verbatim>\<open>DT_LIGHTTABLE_MAX_ZOOM\<close>: GTK clamps the value to the range and,
  when the number shown changes, emits \<^verbatim>\<open>value-changed\<close>, which runs the handler above
  before the call returns.
\<close>

definition spin_clamp :: "view_h \<Rightarrow> int \<Rightarrow> int" where
  "spin_clamp L v =
     (if v > DT_LIGHTTABLE_MAX_ZOOM L then DT_LIGHTTABLE_MAX_ZOOM L
      else if v < 1 then 1 else v)"

definition gtk_spin_button_set_value ::
  "view_h \<Rightarrow> darktable_t \<Rightarrow> GtkWidget \<Rightarrow> int \<Rightarrow> darktable_t" where
  "gtk_spin_button_set_value L s w v =
     (if spin_value (gtk s) w = spin_clamp L v then s
      else lib_lighttable_zoom_slider_changed L
             (s\<lparr>gtk := (gtk s)\<lparr>spin_value := (spin_value (gtk s))(w := spin_clamp L v)\<rparr>\<rparr>) w)"

text \<open>\<^verbatim>\<open>_lib_lighttable_set_zoom\<close> and \<^verbatim>\<open>_lib_lighttable_get_zoom\<close>, lines 579 to 590.\<close>

definition lib_lighttable_set_zoom :: "view_h \<Rightarrow> darktable_t \<Rightarrow> int \<Rightarrow> darktable_t" where
  "lib_lighttable_set_zoom L s z =
     (let s1 = gtk_spin_button_set_value L s (zoom (data s)) z
      in s1\<lparr>data := (data s1)\<lparr>current_zoom := z\<rparr>\<rparr>)"

definition lib_lighttable_get_zoom :: "darktable_t \<Rightarrow> int" where
  "lib_lighttable_get_zoom s = current_zoom (data s)"

subsection \<open>\<^verbatim>\<open>_lib_lighttable_update_btn\<close>\<close>

text \<open>The loop over the children of the box, lines 104 to 110.\<close>

fun update_btn_loop :: "GtkWidget list \<Rightarrow> GtkWidget \<Rightarrow> gtk_t \<Rightarrow> gtk_t" where
  "update_btn_loop [] active g = g"
| "update_btn_loop (w # l) active g =
     update_btn_loop l active
       (gtk_widget_queue_draw (gtk_toggle_button_set_active g w (w = active)) w)"

text \<open>Lines 93 to 102: which button should be active.\<close>

definition active_btn :: "view_h \<Rightarrow> dt_lib_tool_lighttable_t \<Rightarrow> bool \<Rightarrow> GtkWidget" where
  "active_btn L d fullpreview =
     (if fullpreview then layout_preview d
      else if layout d = DT_LIGHTTABLE_LAYOUT_CULLING_DYNAMIC L then layout_culling_dynamic d
      else if layout d = DT_LIGHTTABLE_LAYOUT_CULLING L then layout_culling_fix d
      else if layout d = DT_LIGHTTABLE_LAYOUT_ZOOMABLE L then layout_zoomable d
      else layout_filemanager d)"

text \<open>Lines 112 to 126: the tooltips.\<close>

definition update_btn_tooltips :: "view_h \<Rightarrow> dt_lib_tool_lighttable_t \<Rightarrow> bool \<Rightarrow> gtk_t \<Rightarrow> gtk_t" where
  "update_btn_tooltips L d fullpreview g =
     (let g1 = (if fullpreview
                then gtk_widget_set_tooltip_text g (layout_preview d)
                       ''click to exit from full preview layout.''
                else gtk_widget_set_tooltip_text g (layout_preview d)
                       ''click to enter full preview layout.'');
          g2 = (if layout d \<noteq> DT_LIGHTTABLE_LAYOUT_CULLING L \<or> fullpreview
                then gtk_widget_set_tooltip_text g1 (layout_culling_fix d)
                       ''click to enter culling layout in fixed mode.''
                else gtk_widget_set_tooltip_text g1 (layout_culling_fix d)
                       ''click to exit culling layout.'')
      in if layout d \<noteq> DT_LIGHTTABLE_LAYOUT_CULLING_DYNAMIC L \<or> fullpreview
         then gtk_widget_set_tooltip_text g2 (layout_culling_dynamic d)
                ''click to enter culling layout in dynamic mode.''
         else gtk_widget_set_tooltip_text g2 (layout_culling_dynamic d)
                ''click to exit culling layout.'')"

text \<open>Lines 131 to 152: the button that restricts culling to the selection.\<close>

definition update_btn_restricted ::
  "view_h \<Rightarrow> dt_lib_tool_lighttable_t \<Rightarrow> bool \<Rightarrow> dt_view_manager_t \<Rightarrow> gtk_t \<Rightarrow> gtk_t" where
  "update_btn_restricted L d fullpreview vm g =
     (if layout d = DT_LIGHTTABLE_LAYOUT_CULLING L \<or> fullpreview
      then
        (let g1 =
             (if dt_view_lighttable_culling_restricted_state vm
                   = DT_LIGHTTABLE_CULLING_RESTRICTION_SELECTION
              then gtk_toggle_button_set_active
                     (gtk_widget_set_tooltip_text g (layout_culling_restricted d)
                        ''click to allow browsing all images from the collection.'')
                     (layout_culling_restricted d) True
              else gtk_toggle_button_set_active
                     (gtk_widget_set_tooltip_text g (layout_culling_restricted d)
                        ''click to limit browsing to the selection.'')
                     (layout_culling_restricted d) False)
         in gtk_widget_set_visible g1 (layout_culling_restricted d) True)
      else gtk_toggle_button_set_active
             (gtk_widget_set_visible g (layout_culling_restricted d) False)
             (layout_culling_restricted d) False)"

text \<open>The whole function, lines 87 to 153.\<close>

definition lib_lighttable_update_btn :: "view_h \<Rightarrow> darktable_t \<Rightarrow> darktable_t" where
  "lib_lighttable_update_btn L s =
     (let d = data s;
          fullpreview = dt_view_lighttable_preview_state (view_manager s);
          active = active_btn L d fullpreview;
          children = gtk_container_get_children (gtk s) (layout_box d);
          g1 = update_btn_loop children active (gtk s);
          g2 = update_btn_tooltips L d fullpreview g1;
          g3 = gtk_widget_set_sensitive g2 (zoom d)
                 (layout d \<noteq> DT_LIGHTTABLE_LAYOUT_CULLING_DYNAMIC L \<and> \<not> fullpreview);
          s1 = gtk_spin_button_set_value L (s\<lparr>gtk := g3\<rparr>) (zoom d) (current_zoom d)
      in s1\<lparr>gtk := update_btn_restricted L (data s1) fullpreview (view_manager s1) (gtk s1)\<rparr>)"

subsection \<open>\<^verbatim>\<open>_lib_lighttable_set_layout\<close>\<close>

text \<open>Lines 181 to 194: the zoom that goes with the new layout.\<close>

definition zoom_of_new_layout :: "view_h \<Rightarrow> darktable_t \<Rightarrow> int" where
  "zoom_of_new_layout L s =
     (if layout (data s) = DT_LIGHTTABLE_LAYOUT_CULLING_DYNAMIC L
      then (let z = int (max 1 (min 30 (dt_collection_get_selected_count s)))
            in if z = 1 then dt_conf_get_int s ''plugins/lighttable/culling_num_images''
               else z)
      else if layout (data s) = DT_LIGHTTABLE_LAYOUT_CULLING L
      then dt_conf_get_int s ''plugins/lighttable/culling_num_images''
      else dt_conf_get_int s ''plugins/lighttable/images_in_row'')"

text \<open>The whole function, lines 155 to 211. The argument \<open>new_layout\<close> is the C parameter \<^verbatim>\<open>layout\<close>.\<close>

definition lib_lighttable_set_layout ::
  "view_h \<Rightarrow> darktable_t \<Rightarrow> dt_lighttable_layout_t \<Rightarrow> darktable_t" where
  "lib_lighttable_set_layout L s new_layout =
     (let s1 =
            (if (new_layout = DT_LIGHTTABLE_LAYOUT_PREVIEW L)
                  \<noteq> dt_view_lighttable_preview_state (view_manager s)
             then s\<lparr>view_manager :=
                      dt_view_lighttable_set_preview_state (view_manager s)
                        (new_layout = DT_LIGHTTABLE_LAYOUT_PREVIEW L) True
                        (fullpreview_focus (data s)) DT_LIGHTTABLE_CULLING_RESTRICTION_AUTO\<rparr>
             else s)
      in if new_layout = DT_LIGHTTABLE_LAYOUT_PREVIEW L
         then lib_lighttable_update_btn L s1
         else
           (let current_layout = dt_conf_get_int s1 ''plugins/lighttable/layout'';
                s2 = s1\<lparr>data := (data s1)\<lparr>layout := new_layout\<rparr>\<rparr>
            in if current_layout \<noteq> new_layout
               then
                 (let s3 = s2\<lparr>data := (data s2)\<lparr>current_zoom := zoom_of_new_layout L s2\<rparr>\<rparr>;
                      s4 = dt_conf_set_int s3 ''plugins/lighttable/layout'' new_layout;
                      s5 = (if new_layout = DT_LIGHTTABLE_LAYOUT_FILEMANAGER L
                               \<or> new_layout = DT_LIGHTTABLE_LAYOUT_ZOOMABLE L
                            then dt_conf_set_int
                                   (s4\<lparr>data := (data s4)\<lparr>base_layout := new_layout\<rparr>\<rparr>)
                                   ''plugins/lighttable/base_layout'' new_layout
                            else s4)
                  in lib_lighttable_update_btn L (dt_control_queue_redraw_center s5))
               else lib_lighttable_update_btn L (dt_control_queue_redraw_center s2)))"

text \<open>
  \<^verbatim>\<open>_lib_lighttable_get_layout\<close>, lines 573 to 577; the argument is \<^verbatim>\<open>self->data\<close>, which may be
  NULL.
\<close>

definition lib_lighttable_get_layout ::
  "view_h \<Rightarrow> dt_lib_tool_lighttable_t option \<Rightarrow> dt_lighttable_layout_t" where
  "lib_lighttable_get_layout L self_data =
     (case self_data of
        Some d \<Rightarrow> layout d
      | None \<Rightarrow> DT_LIGHTTABLE_LAYOUT_FILEMANAGER L)"

subsection \<open>Buttons and keys\<close>

text \<open>
  \<^verbatim>\<open>_lib_lighttable_layout_btn_release\<close>, lines 213 to 257. \<open>ctrl\<close> is
  \<^verbatim>\<open>dt_modifier_is(event->state, GDK_CONTROL_MASK)\<close>.
\<close>

definition lib_lighttable_layout_btn_release ::
  "view_h \<Rightarrow> darktable_t \<Rightarrow> GtkWidget \<Rightarrow> bool \<Rightarrow> darktable_t" where
  "lib_lighttable_layout_btn_release L s w ctrl =
     (let d = data s;
          active = gtk_toggle_button_get_active (gtk s) w
      in if \<not> active
         then
           (if w = layout_preview d
            then lib_lighttable_set_layout L (s\<lparr>data := d\<lparr>fullpreview_focus := ctrl\<rparr>\<rparr>)
                   (DT_LIGHTTABLE_LAYOUT_PREVIEW L)
            else if w = layout_culling_fix d
            then lib_lighttable_set_layout L
                   (s\<lparr>data := d\<lparr>culling_init_restriction :=
                        (if ctrl then DT_LIGHTTABLE_CULLING_RESTRICTION_COLLECTION
                         else DT_LIGHTTABLE_CULLING_RESTRICTION_AUTO)\<rparr>\<rparr>)
                   (DT_LIGHTTABLE_LAYOUT_CULLING L)
            else if w = layout_culling_dynamic d
            then lib_lighttable_set_layout L s (DT_LIGHTTABLE_LAYOUT_CULLING_DYNAMIC L)
            else if w = layout_zoomable d
            then lib_lighttable_set_layout L s (DT_LIGHTTABLE_LAYOUT_ZOOMABLE L)
            else lib_lighttable_set_layout L s (DT_LIGHTTABLE_LAYOUT_FILEMANAGER L))
         else
           (if w = layout_preview d
            then lib_lighttable_set_layout L s (layout d)
            else if w = layout_culling_dynamic d \<or> w = layout_culling_fix d
            then lib_lighttable_set_layout L s (base_layout d)
            else s))"

text \<open>\<^verbatim>\<open>_lib_lighttable_restricted_btn_release\<close>, lines 259 to 268.\<close>

definition lib_lighttable_restricted_btn_release ::
  "view_h \<Rightarrow> darktable_t \<Rightarrow> GtkWidget \<Rightarrow> darktable_t" where
  "lib_lighttable_restricted_btn_release L s w =
     (let restriction =
            (if gtk_toggle_button_get_active (gtk s) w
             then DT_LIGHTTABLE_CULLING_RESTRICTION_COLLECTION
             else DT_LIGHTTABLE_CULLING_RESTRICTION_SELECTION)
      in lib_lighttable_update_btn L
           (s\<lparr>view_manager :=
                dt_view_lighttable_set_culling_restricted_state (view_manager s) restriction\<rparr>))"

text \<open>The key accelerators, lines 270 to 333.\<close>

definition lib_lighttable_key_accel_toggle_filemanager :: "view_h \<Rightarrow> darktable_t \<Rightarrow> darktable_t" where
  "lib_lighttable_key_accel_toggle_filemanager L s =
     lib_lighttable_set_layout L s (DT_LIGHTTABLE_LAYOUT_FILEMANAGER L)"

definition lib_lighttable_key_accel_toggle_zoomable :: "view_h \<Rightarrow> darktable_t \<Rightarrow> darktable_t" where
  "lib_lighttable_key_accel_toggle_zoomable L s =
     lib_lighttable_set_layout L s (DT_LIGHTTABLE_LAYOUT_ZOOMABLE L)"

definition lib_lighttable_key_accel_toggle_culling_dynamic_mode ::
  "view_h \<Rightarrow> darktable_t \<Rightarrow> darktable_t" where
  "lib_lighttable_key_accel_toggle_culling_dynamic_mode L s =
     dt_control_queue_redraw_center
       (if layout (data s) \<noteq> DT_LIGHTTABLE_LAYOUT_CULLING L
           \<and> layout (data s) \<noteq> DT_LIGHTTABLE_LAYOUT_CULLING_DYNAMIC L
        then lib_lighttable_set_layout L s (DT_LIGHTTABLE_LAYOUT_CULLING_DYNAMIC L)
        else lib_lighttable_set_layout L s (base_layout (data s)))"

definition lib_lighttable_key_accel_toggle_culling_zoom_mode ::
  "view_h \<Rightarrow> darktable_t \<Rightarrow> darktable_t" where
  "lib_lighttable_key_accel_toggle_culling_zoom_mode L s =
     (if layout (data s) = DT_LIGHTTABLE_LAYOUT_CULLING L
      then lib_lighttable_set_layout L s (DT_LIGHTTABLE_LAYOUT_CULLING_DYNAMIC L)
      else if layout (data s) = DT_LIGHTTABLE_LAYOUT_CULLING_DYNAMIC L
      then lib_lighttable_set_layout L
             (s\<lparr>data := (data s)\<lparr>culling_init_restriction :=
                  DT_LIGHTTABLE_CULLING_RESTRICTION_AUTO\<rparr>\<rparr>)
             (DT_LIGHTTABLE_LAYOUT_CULLING L)
      else s)"

definition lib_lighttable_key_accel_toggle_restricted_mode ::
  "view_h \<Rightarrow> darktable_t \<Rightarrow> darktable_t" where
  "lib_lighttable_key_accel_toggle_restricted_mode L s =
     (if layout (data s) = DT_LIGHTTABLE_LAYOUT_CULLING L
         \<or> dt_view_lighttable_preview_state (view_manager s)
      then lib_lighttable_restricted_btn_release L s (layout_culling_restricted (data s))
      else s)"

definition lib_lighttable_key_accel_exit_layout :: "view_h \<Rightarrow> darktable_t \<Rightarrow> darktable_t" where
  "lib_lighttable_key_accel_exit_layout L s =
     (if dt_view_lighttable_preview_state (view_manager s)
      then lib_lighttable_set_layout L s (layout (data s))
      else if layout (data s) \<noteq> base_layout (data s)
      then lib_lighttable_set_layout L s (base_layout (data s))
      else s)"

text \<open>
  The two shortcut actions, lines 351 to 410. \<open>perform\<close> is \<^verbatim>\<open>DT_PERFORM_ACTION(move_size)\<close>;
  the number they return to the shortcut system is left out.
\<close>

definition action_process_culling ::
  "view_h \<Rightarrow> darktable_t \<Rightarrow> nat \<Rightarrow> dt_action_effect_t \<Rightarrow> bool \<Rightarrow> darktable_t" where
  "action_process_culling L s element effect perform =
     (if perform
      then lib_lighttable_update_btn L
        (if layout (data s) \<noteq> DT_LIGHTTABLE_LAYOUT_CULLING L
            \<and> layout (data s) \<noteq> DT_LIGHTTABLE_LAYOUT_CULLING_DYNAMIC L
            \<and> effect \<noteq> DT_ACTION_EFFECT_ON
         then lib_lighttable_set_layout L
                (s\<lparr>data := (data s)\<lparr>culling_init_restriction :=
                     (if element = DT_ACTION_ELEMENT_CULLING_NO_RESTRICTION
                      then DT_LIGHTTABLE_CULLING_RESTRICTION_COLLECTION
                      else DT_LIGHTTABLE_CULLING_RESTRICTION_AUTO)\<rparr>\<rparr>)
                (DT_LIGHTTABLE_LAYOUT_CULLING L)
         else if effect \<noteq> DT_ACTION_EFFECT_ON
         then lib_lighttable_set_layout L s (base_layout (data s))
         else s)
      else s)"

definition action_process_preview ::
  "view_h \<Rightarrow> darktable_t \<Rightarrow> nat \<Rightarrow> dt_action_effect_t \<Rightarrow> bool \<Rightarrow> darktable_t" where
  "action_process_preview L s element effect perform =
     (if perform
      then lib_lighttable_update_btn L
        (if dt_view_lighttable_preview_state (view_manager s)
         then (if effect \<noteq> DT_ACTION_EFFECT_ON
               then lib_lighttable_set_layout L s (layout (data s)) else s)
         else (if effect \<noteq> DT_ACTION_EFFECT_OFF
               then
                 (let sticky = (effect = DT_ACTION_EFFECT_HOLD_TOGGLE);
                      focus = (element = DT_ACTION_ELEMENT_PREVIEW_FOCUS_DETECT);
                      restriction =
                        (if sticky \<and> element = DT_ACTION_ELEMENT_PREVIEW_NO_RESTRICTION
                         then DT_LIGHTTABLE_CULLING_RESTRICTION_COLLECTION
                         else DT_LIGHTTABLE_CULLING_RESTRICTION_AUTO)
                  in s\<lparr>view_manager :=
                         dt_view_lighttable_set_preview_state (view_manager s) True sticky
                           focus restriction\<rparr>)
               else s))
      else s)"

subsection \<open>The scripting binding\<close>

text \<open>
  \<^verbatim>\<open>layout_cb\<close> and \<^verbatim>\<open>zoom_level_cb\<close>, lines 593 to 616. The second argument is the value the
  script passed, converted by \<^verbatim>\<open>luaA_to\<close>, or \<open>None\<close> when the stack is empty
  (\<^verbatim>\<open>lua_gettop(L) > 0\<close> is false). The result is the value pushed for the script and the
  state the call leaves.
\<close>

definition layout_cb ::
  "view_h \<Rightarrow> darktable_t \<Rightarrow> dt_lighttable_layout_t option
     \<Rightarrow> dt_lighttable_layout_t \<times> darktable_t" where
  "layout_cb L s arg =
     (let tmp = lib_lighttable_get_layout L (Some (data s))
      in (tmp, case arg of
                 Some v \<Rightarrow> lib_lighttable_set_layout L s v
               | None \<Rightarrow> s))"

definition zoom_level_cb :: "view_h \<Rightarrow> darktable_t \<Rightarrow> int option \<Rightarrow> int \<times> darktable_t" where
  "zoom_level_cb L s arg =
     (let tmp = lib_lighttable_get_zoom s
      in (tmp, case arg of
                 Some v \<Rightarrow> lib_lighttable_set_zoom L s v
               | None \<Rightarrow> s))"

subsection \<open>Sequences of operations\<close>

text \<open>
  What can happen to the module once it is set up: a call through the layout or zoom
  proxy, a release of a mouse button on one of its buttons, a key accelerator, a shortcut
  action, the user changing the spin button, and a script reading or writing the two
  members.
\<close>

datatype operation =
    Set_layout dt_lighttable_layout_t
  | Set_zoom int
  | Update_layout_btn
  | Layout_btn_release GtkWidget bool
  | Restricted_btn_release
  | Key_accel_toggle_filemanager
  | Key_accel_toggle_zoomable
  | Key_accel_toggle_culling_dynamic_mode
  | Key_accel_toggle_culling_zoom_mode
  | Key_accel_toggle_restricted_mode
  | Key_accel_exit_layout
  | Action_culling nat dt_action_effect_t bool
  | Action_preview nat dt_action_effect_t bool
  | Spin_button_changed int
  | Lua_layout "dt_lighttable_layout_t option"
  | Lua_zoom_level "int option"

fun run_operation :: "view_h \<Rightarrow> darktable_t \<Rightarrow> operation \<Rightarrow> darktable_t" where
  "run_operation L s (Set_layout l) = lib_lighttable_set_layout L s l"
| "run_operation L s (Set_zoom z) = lib_lighttable_set_zoom L s z"
| "run_operation L s Update_layout_btn = lib_lighttable_update_btn L s"
| "run_operation L s (Layout_btn_release w ctrl) = lib_lighttable_layout_btn_release L s w ctrl"
| "run_operation L s Restricted_btn_release =
     lib_lighttable_restricted_btn_release L s (layout_culling_restricted (data s))"
| "run_operation L s Key_accel_toggle_filemanager = lib_lighttable_key_accel_toggle_filemanager L s"
| "run_operation L s Key_accel_toggle_zoomable = lib_lighttable_key_accel_toggle_zoomable L s"
| "run_operation L s Key_accel_toggle_culling_dynamic_mode =
     lib_lighttable_key_accel_toggle_culling_dynamic_mode L s"
| "run_operation L s Key_accel_toggle_culling_zoom_mode =
     lib_lighttable_key_accel_toggle_culling_zoom_mode L s"
| "run_operation L s Key_accel_toggle_restricted_mode =
     lib_lighttable_key_accel_toggle_restricted_mode L s"
| "run_operation L s Key_accel_exit_layout = lib_lighttable_key_accel_exit_layout L s"
| "run_operation L s (Action_culling element effect p) = action_process_culling L s element effect p"
| "run_operation L s (Action_preview element effect p) = action_process_preview L s element effect p"
| "run_operation L s (Spin_button_changed v) =
     gtk_spin_button_set_value L s (zoom (data s)) v"
| "run_operation L s (Lua_layout arg) = snd (layout_cb L s arg)"
| "run_operation L s (Lua_zoom_level arg) = snd (zoom_level_cb L s arg)"

fun run_operations :: "view_h \<Rightarrow> darktable_t \<Rightarrow> operation list \<Rightarrow> darktable_t" where
  "run_operations L s [] = s"
| "run_operations L s (x # xs) = run_operations L (run_operation L s x) xs"

subsection \<open>\<^verbatim>\<open>gui_init\<close>\<close>

text \<open>
  The constructors: each returns a pointer that no widget had before. A new toggle button
  is not active, a new box has the children it is given, a new spin button shows the
  lower end of its range.
\<close>

definition dtgtk_togglebutton_new :: "gtk_t \<Rightarrow> GtkWidget \<times> gtk_t" where
  "dtgtk_togglebutton_new g =
     (widget_count g,
      g\<lparr>widget_count := Suc (widget_count g),
        toggle_active := (toggle_active g)(widget_count g := False)\<rparr>)"

definition dt_gui_hbox :: "gtk_t \<Rightarrow> GtkWidget list \<Rightarrow> GtkWidget \<times> gtk_t" where
  "dt_gui_hbox g ws =
     (widget_count g,
      g\<lparr>widget_count := Suc (widget_count g),
        container_children := (container_children g)(widget_count g := ws)\<rparr>)"

definition gtk_spin_button_new_with_range :: "gtk_t \<Rightarrow> int \<Rightarrow> int \<Rightarrow> GtkWidget \<times> gtk_t" where
  "gtk_spin_button_new_with_range g lo hi =
     (widget_count g,
      g\<lparr>widget_count := Suc (widget_count g),
        spin_value := (spin_value g)(widget_count g := lo)\<rparr>)"

text \<open>
  Lines 441 to 453: the layouts and the zoom read from the configuration. The count of
  selected images is unsigned; \<^verbatim>\<open>DT_LIGHTTABLE_MAX_ZOOM\<close> is taken to be positive.
\<close>

definition gui_init_zoom :: "view_h \<Rightarrow> darktable_t \<Rightarrow> dt_lighttable_layout_t \<Rightarrow> int" where
  "gui_init_zoom L s l =
     (if l = DT_LIGHTTABLE_LAYOUT_CULLING L
      then dt_conf_get_int s ''plugins/lighttable/culling_num_images''
      else if l = DT_LIGHTTABLE_LAYOUT_CULLING_DYNAMIC L
      then (let z = max 1 (min (DT_LIGHTTABLE_MAX_ZOOM L)
                             (int (dt_collection_get_selected_count s)))
            in if z = 1 then dt_conf_get_int s ''plugins/lighttable/culling_num_images''
               else z)
      else dt_conf_get_int s ''plugins/lighttable/images_in_row'')"

text \<open>
  Lines 438 to 522, up to the call of \<^verbatim>\<open>_lib_lighttable_update_btn\<close>. \<^verbatim>\<open>g_malloc0\<close> clears the
  new structure: \<open>zero\<close> is the restriction whose number is 0. The registration of the
  shortcuts and the help links are left out. The first \<^verbatim>\<open>gtk_spin_button_set_value\<close> runs
  before the handler of \<^verbatim>\<open>value-changed\<close> is connected, so it only sets the number shown.
\<close>

definition gui_init_widgets ::
  "view_h \<Rightarrow> dt_lighttable_culling_restriction_t \<Rightarrow> darktable_t \<Rightarrow> darktable_t" where
  "gui_init_widgets L zero s =
     (let l = min (DT_LIGHTTABLE_LAYOUT_LAST L - 1)
                (dt_conf_get_int s ''plugins/lighttable/layout'');
          b = min (DT_LIGHTTABLE_LAYOUT_LAST L - 1)
                (dt_conf_get_int s ''plugins/lighttable/base_layout'');
          cz = gui_init_zoom L s l;
          (w_filemanager, g1) = dtgtk_togglebutton_new (gtk s);
          g2 = gtk_widget_set_tooltip_text g1 w_filemanager
                 ''click to enter filemanager layout.'';
          (w_zoomable, g3) = dtgtk_togglebutton_new g2;
          g4 = gtk_widget_set_tooltip_text g3 w_zoomable
                 ''click to enter zoomable lighttable layout.'';
          (w_culling_fix, g5) = dtgtk_togglebutton_new g4;
          (w_culling_dynamic, g6) = dtgtk_togglebutton_new g5;
          (w_preview, g7) = dtgtk_togglebutton_new g6;
          (w_box, g8) = dt_gui_hbox g7
                 [w_filemanager, w_zoomable, w_culling_fix, w_culling_dynamic, w_preview];
          (w_zoom, g9) = gtk_spin_button_new_with_range g8 1 (DT_LIGHTTABLE_MAX_ZOOM L);
          g10 = g9\<lparr>spin_value := (spin_value g9)(w_zoom := spin_clamp L cz)\<rparr>;
          g11 = gtk_widget_set_tooltip_text g10 w_zoom
                 (''set the number of thumbnails per row in filemanager layout,'' @ [CHR 10]
                  @ ''or the total number of thumbnails shown in culling layouts.'');
          (w_restricted, g12) = dtgtk_togglebutton_new g11;
          (w_self, g13) = dt_gui_hbox g12 [w_box, w_zoom, w_restricted]
      in s\<lparr>data :=
             \<lparr>zoom = w_zoom, layout_box = w_box, layout_filemanager = w_filemanager,
              layout_zoomable = w_zoomable, layout_culling_dynamic = w_culling_dynamic,
              layout_culling_fix = w_culling_fix, layout_culling_restricted = w_restricted,
              layout_preview = w_preview, layout = l, base_layout = b, current_zoom = cz,
              fullpreview_focus = False, culling_init_restriction = zero\<rparr>,
           gtk := g13\<rparr>)"

definition gui_init ::
  "view_h \<Rightarrow> dt_lighttable_culling_restriction_t \<Rightarrow> darktable_t \<Rightarrow> darktable_t" where
  "gui_init L zero s = lib_lighttable_update_btn L (gui_init_widgets L zero s)"

subsection \<open>The module after \<^verbatim>\<open>gui_init\<close>\<close>

text \<open>
  \<^verbatim>\<open>gui_init\<close> (lines 459 to 522) creates the five layout buttons, packs them into
  \<^verbatim>\<open>d->layout_box\<close> in the order below, and creates the button for the restriction of
  culling apart from them; the six are different widgets. It sets the spin button to
  \<^verbatim>\<open>d->current_zoom\<close>, so that the button shows the zoom as far as its range allows.
\<close>

definition layout_buttons :: "dt_lib_tool_lighttable_t \<Rightarrow> GtkWidget list" where
  "layout_buttons d =
     [layout_filemanager d, layout_zoomable d, layout_culling_fix d,
      layout_culling_dynamic d, layout_preview d]"

definition widgets_set_up :: "darktable_t \<Rightarrow> bool" where
  "widgets_set_up s =
     (container_children (gtk s) (layout_box (data s)) = layout_buttons (data s) \<and>
      distinct (layout_culling_restricted (data s) # layout_buttons (data s)))"

definition zoom_shown :: "view_h \<Rightarrow> darktable_t \<Rightarrow> bool" where
  "zoom_shown L s =
     (spin_value (gtk s) (zoom (data s)) = spin_clamp L (current_zoom (data s)))"

text \<open>The enumerators of the layouts are different numbers.\<close>

definition enumerators_distinct :: "view_h \<Rightarrow> bool" where
  "enumerators_distinct L =
     distinct [DT_LIGHTTABLE_LAYOUT_ZOOMABLE L, DT_LIGHTTABLE_LAYOUT_FILEMANAGER L,
               DT_LIGHTTABLE_LAYOUT_CULLING L, DT_LIGHTTABLE_LAYOUT_CULLING_DYNAMIC L,
               DT_LIGHTTABLE_LAYOUT_PREVIEW L]"

text \<open>Two states with the same widgets: no operation creates, moves or forgets one.\<close>

definition same_widgets :: "darktable_t \<Rightarrow> darktable_t \<Rightarrow> bool" where
  "same_widgets s t =
     (container_children (gtk t) = container_children (gtk s) \<and>
      zoom (data t) = zoom (data s) \<and>
      layout_box (data t) = layout_box (data s) \<and>
      layout_filemanager (data t) = layout_filemanager (data s) \<and>
      layout_zoomable (data t) = layout_zoomable (data s) \<and>
      layout_culling_dynamic (data t) = layout_culling_dynamic (data s) \<and>
      layout_culling_fix (data t) = layout_culling_fix (data s) \<and>
      layout_culling_restricted (data t) = layout_culling_restricted (data s) \<and>
      layout_preview (data t) = layout_preview (data s))"


section \<open>The words of the specification\<close>

text \<open>
  The extension of a file name is what follows its last dot; a name without a dot has
  none.
\<close>

definition last_extension :: "string \<Rightarrow> string option" where
  "last_extension fname =
     (if CHR ''.'' \<in> set fname
      then Some (rev (takeWhile (\<lambda>c. c \<noteq> CHR ''.'') (rev fname)))
      else None)"

text \<open>The whitelist of the build: \<^verbatim>\<open>qoi\<close> is accepted under ImageMagick 7 only.\<close>

definition whitelisted_extensions :: "bool \<Rightarrow> string list" where
  "whitelisted_extensions HAVE_IMAGEMAGICK7 =
     extensions_whitelist @ (if HAVE_IMAGEMAGICK7 then [''qoi''] else [])"

text \<open>
  Two readings of the match between an extension and a whitelisted one, both without
  regard to the case of ASCII letters: the extension begins with the whitelisted one, or
  the extension is a prefix of the whitelisted one.
\<close>

definition begins_with :: "string \<Rightarrow> string \<Rightarrow> bool" where
  "begins_with ext w = prefix (map g_ascii_tolower w) (map g_ascii_tolower ext)"

definition matches_prefix_of :: "string \<Rightarrow> string \<Rightarrow> bool" where
  "matches_prefix_of ext w =
     list_ex (\<lambda>p. map g_ascii_tolower ext = map g_ascii_tolower p) (prefixes w)"

text \<open>
  The steps that copy the embedded profile: the question for \<^verbatim>\<open>icc\<close>, the question for
  \<^verbatim>\<open>icm\<close> when there is no \<^verbatim>\<open>icc\<close>, and, for a profile that was found, the allocation, the
  copy when the allocation succeeded, and the release of the library's block.
\<close>

definition embedded_profile :: "'a extern \<Rightarrow> 8 word list option" where
  "embedded_profile E =
     (case MagickGetImageProfile E ''icc'' of
        Some bytes \<Rightarrow> Some bytes
      | None \<Rightarrow> MagickGetImageProfile E ''icm'')"



section \<open>Sample values\<close>

text \<open>A two-by-one image and an environment in which every call succeeds.\<close>

definition sample_flags :: dt_image_flags_t where
  "sample_flags = \<lparr>DT_IMAGE_LDR = 32, DT_IMAGE_RAW = 64, DT_IMAGE_HDR = 128,
                    DT_IMAGE_S_RAW = 131072\<rparr>"

definition sample_img :: dt_image_t where
  "sample_img =
     \<lparr>exif_inited = True, width = 0, height = 0,
      buf_dsc = \<lparr>channels = 1, datatype' = TYPE_OTHER 0, cst = IOP_CS_OTHER 0, filters = 9\<rparr>,
      flags = 192, profile = None, profile_size = 0, loader = LOADER_OTHER 0\<rparr>"

definition sample_pixels :: "nat \<Rightarrow> real" where
  "sample_pixels i =
     (if i < 8 then [1/5, 2/5, 3/5, 1/2, 0, 1, 1/4, 0] ! i else 0)"

definition sample_extern :: "ColorspaceType \<Rightarrow> real extern" where
  "sample_extern colorspace =
     \<lparr>dt_exif_read = (\<lambda>img fname. img\<lparr>exif_inited := True\<rparr>),
      NewMagickWand = True,
      MagickReadImage = (\<lambda>fname. True),
      MagickGetImageWidth = 2,
      MagickGetImageHeight = 1,
      dt_mipmap_cache_alloc = (\<lambda>img. Some (\<lambda>i. 0)),
      MagickGetImageColorspace = colorspace,
      MagickExportImagePixels = (\<lambda>x y columns rows cmap mipbuf. (True, sample_pixels)),
      MagickGetImageProfile = (\<lambda>name. if name = ''icc'' then Some [1, 2, 3] else None),
      g_try_malloc0 = (\<lambda>n. True)\<rparr>"

text \<open>The same environment with an allocator that has no memory left.\<close>

definition sample_extern_no_memory :: "real extern" where
  "sample_extern_no_memory = (sample_extern CMYKColorspace)\<lparr>g_try_malloc0 := (\<lambda>n. False)\<rparr>"

text \<open>Environments in which one call fails: the read, the allocation, the export.\<close>

definition sample_extern_unreadable :: "real extern" where
  "sample_extern_unreadable =
     (sample_extern CMYKColorspace)\<lparr>MagickReadImage := (\<lambda>fname. False)\<rparr>"

definition sample_extern_cache_full :: "real extern" where
  "sample_extern_cache_full =
     (sample_extern CMYKColorspace)\<lparr>dt_mipmap_cache_alloc := (\<lambda>img. None)\<rparr>"

definition sample_extern_bad_pixels :: "real extern" where
  "sample_extern_bad_pixels =
     (sample_extern CMYKColorspace)
       \<lparr>MagickExportImagePixels := (\<lambda>x y columns rows cmap mipbuf. (False, mipbuf))\<rparr>"


definition sample_img_with_profile :: dt_image_t where
  "sample_img_with_profile = sample_img\<lparr>profile := Some [7, 7], profile_size := 2\<rparr>"

definition sample_extern_no_profile :: "real extern" where
  "sample_extern_no_profile =
     (sample_extern CMYKColorspace)\<lparr>MagickGetImageProfile := (\<lambda>name. None)\<rparr>"

definition sample_extern_icm :: "real extern" where
  "sample_extern_icm =
     (sample_extern CMYKColorspace)
       \<lparr>MagickGetImageProfile := (\<lambda>name. if name = ''icm'' then Some [4, 5] else None)\<rparr>"

text \<open>
  A CMYK image of 65536 by 16384 pixels, \<open>2 ^ 30\<close> of them: four times that number is
  \<open>2 ^ 32\<close>.
\<close>

definition sample_extern_huge :: "real extern" where
  "sample_extern_huge =
     (sample_extern CMYKColorspace)\<lparr>MagickGetImageWidth := 65536,
                                       MagickGetImageHeight := 16384\<rparr>"

text \<open>
  A lighttable module in the filemanager layout with five thumbnails in a row, and
  values for the enumerators.
\<close>

definition sample_view_h :: view_h where
  "sample_view_h =
     \<lparr>DT_LIGHTTABLE_LAYOUT_FIRST = - 1, DT_LIGHTTABLE_LAYOUT_ZOOMABLE = 0,
      DT_LIGHTTABLE_LAYOUT_FILEMANAGER = 1, DT_LIGHTTABLE_LAYOUT_CULLING = 2,
      DT_LIGHTTABLE_LAYOUT_CULLING_DYNAMIC = 3, DT_LIGHTTABLE_LAYOUT_PREVIEW = 4,
      DT_LIGHTTABLE_LAYOUT_LAST = 5, DT_LIGHTTABLE_MAX_ZOOM = 25\<rparr>"

definition sample_data :: dt_lib_tool_lighttable_t where
  "sample_data =
     \<lparr>zoom = 7, layout_box = 6, layout_filemanager = 1, layout_zoomable = 2,
      layout_culling_dynamic = 4, layout_culling_fix = 3, layout_culling_restricted = 8,
      layout_preview = 5, layout = 1, base_layout = 1, current_zoom = 5,
      fullpreview_focus = False,
      culling_init_restriction = DT_LIGHTTABLE_CULLING_RESTRICTION_AUTO\<rparr>"

definition sample_gtk :: gtk_t where
  "sample_gtk =
     \<lparr>widget_count = 10, toggle_active = (\<lambda>w. w = 1), tooltip_text = (\<lambda>w. []), sensitive = (\<lambda>w. True),
      visible = (\<lambda>w. w \<noteq> 8), spin_value = (\<lambda>w. 5),
      container_children = (\<lambda>w. if w = 6 then [1, 2, 3, 4, 5] else []), draw_queue = []\<rparr>"

definition sample_conf :: "string \<Rightarrow> int" where
  "sample_conf key =
     (if key = ''plugins/lighttable/layout'' then 1
      else if key = ''plugins/lighttable/base_layout'' then 1
      else if key = ''plugins/lighttable/images_in_row'' then 5
      else if key = ''plugins/lighttable/culling_num_images'' then 2
      else 0)"

definition sample_view_manager :: dt_view_manager_t where
  "sample_view_manager =
     \<lparr>preview_state = False, preview_sticky = False, preview_focus = False,
      preview_restriction = DT_LIGHTTABLE_CULLING_RESTRICTION_AUTO,
      culling_restricted_state = DT_LIGHTTABLE_CULLING_RESTRICTION_AUTO\<rparr>"

definition sample_darktable :: darktable_t where
  "sample_darktable =
     \<lparr>data = sample_data, view_manager = sample_view_manager, gtk = sample_gtk,
      conf = sample_conf, selected_count = 0, redraw_center = 0,
      thumbtable_zoom_changed = []\<rparr>"




section \<open>Properties of the loader\<close>

subsection \<open>The fixup loop and the successful run\<close>

lemma cmyk_to_rgb_at:
  "cmyk_to_rgb (4 * k) (4 * N) m i =
     (if 4 * k \<le> i \<and> i < 4 * N \<and> i mod 4 \<noteq> 3
      then (1 - m (4 * (i div 4) + 3)) * (1 - m i) else m i)"
proof (induction "N - k" arbitrary: k m)
  case 0
  then show ?case by (subst cmyk_to_rgb.simps) auto
next
  case (Suc d)
  then have lt: "k < N" and d: "d = N - Suc k" by auto
  let ?b = "m (4 * k + 3)"
  let ?m3 = "m(4 * k := (1 - ?b) * (1 - m (4 * k)),
               4 * k + 1 := (1 - ?b) * (1 - m (4 * k + 1)),
               4 * k + 2 := (1 - ?b) * (1 - m (4 * k + 2)))"
  have "cmyk_to_rgb (4 * k) (4 * N) m = cmyk_to_rgb (4 * k + 4) (4 * N) ?m3"
    using lt by (subst cmyk_to_rgb.simps) (simp add: Let_def)
  moreover have "4 * k + 4 = 4 * Suc k" by simp
  ultimately have step: "cmyk_to_rgb (4 * k) (4 * N) m = cmyk_to_rgb (4 * Suc k) (4 * N) ?m3"
    by simp
  have ih: "cmyk_to_rgb (4 * Suc k) (4 * N) ?m3 i =
     (if 4 * Suc k \<le> i \<and> i < 4 * N \<and> i mod 4 \<noteq> 3
      then (1 - ?m3 (4 * (i div 4) + 3)) * (1 - ?m3 i) else ?m3 i)"
    using Suc.hyps(1)[OF d] .
  show ?case
  proof (cases "i < 4 * k")
    case True
    then show ?thesis unfolding step ih by simp
  next
    case ge: False
    show ?thesis
    proof (cases "i < 4 * Suc k")
      case True
      with ge have dm: "i div 4 = k" by simp
      from True ge have "i = 4 * k \<or> i = 4 * k + 1 \<or> i = 4 * k + 2 \<or> i = 4 * k + 3"
        by arith
      then consider (c0) "i = 4 * k" "i mod 4 = 0" | (c1) "i = 4 * k + 1" "i mod 4 = 1"
        | (c2) "i = 4 * k + 2" "i mod 4 = 2" | (c3) "i = 4 * k + 3" "i mod 4 = 3"
        by (elim disjE) (simp_all add: mod_Suc)
      then show ?thesis
        unfolding step ih using lt True dm by cases simp_all
    next
      case False
      have "4 * (i div 4) + 3 \<noteq> 4 * k" "4 * (i div 4) + 3 \<noteq> 4 * k + 1"
           "4 * (i div 4) + 3 \<noteq> 4 * k + 2" by presburger+
      moreover have "i \<noteq> 4 * k" "i \<noteq> 4 * k + 1" "i \<noteq> 4 * k + 2" using False by arith+
      ultimately show ?thesis unfolding step ih using False by simp
    qed
  qed
qed


lemma width_set_dimensions [simp]: "width (set_dimensions E i) = MagickGetImageWidth E"
  and height_set_dimensions [simp]: "height (set_dimensions E i) = MagickGetImageHeight E"
  by (simp_all add: set_dimensions_def Let_def)

lemma open_im_success:
  fixes E :: "('a::{one,minus,times}) extern"
  assumes "supported_image v7 fname" and "NewMagickWand E" and "MagickReadImage E fname"
    and "dt_mipmap_cache_alloc E (set_dimensions E (read_exif E img fname)) = Some mipbuf"
    and "MagickExportImagePixels E 0 0 (MagickGetImageWidth E) (MagickGetImageHeight E)
           (if is_cmyk (MagickGetImageColorspace E) then ''CMYK'' else ''RGBP'') mipbuf
         = (True, exported)"
  shows "dt_imageio_open_im F v7 E img fname =
       \<lparr>retval = DT_IMAGEIO_OK,
        img_out = set_ldr_rgb F (fst (copy_profile E (set_dimensions E (read_exif E img fname)))),
        mipbuf_out = Some (if is_cmyk (MagickGetImageColorspace E)
            then cmyk_to_rgb 0
                   (cmyk_loop_bound (MagickGetImageWidth E) (MagickGetImageHeight E)) exported
            else exported),
        steps = (if \<not> exif_inited img then [Call_dt_exif_read] else [])
          @ [Call_NewMagickWand, Call_MagickReadImage fname, Call_MagickGetImageWidth,
             Call_MagickGetImageHeight, Call_dt_mipmap_cache_alloc,
             Call_MagickGetImageColorspace,
             Call_MagickExportImagePixels 0 0 (MagickGetImageWidth E) (MagickGetImageHeight E)
               (if is_cmyk (MagickGetImageColorspace E) then ''CMYK'' else ''RGBP'')]
          @ (if is_cmyk (MagickGetImageColorspace E) then [Loop_CMYK_to_RGB] else [])
          @ snd (copy_profile E (set_dimensions E (read_exif E img fname)))
          @ [Call_DestroyMagickWand]\<rparr>"
  using assms
  by (simp add: dt_imageio_open_im_def Let_def split: prod.splits)

lemma cmyk_loop_bound_no_overflow:
  assumes "w * h * 4 < 2 ^ 31"
  shows "cmyk_loop_bound w h = w * h * 4"
proof -
  define n where "n = w * h * 4"
  have n: "n < 2 ^ 31" using assms by (simp add: n_def)
  have e: "(word_of_nat w :: 32 word) * word_of_nat h * 4 = word_of_nat n"
    by (simp add: n_def)
  have s: "sint (word_of_nat n :: 32 word) = int n"
    using n by (simp add: signed_of_nat signed_take_bit_int_eq_self)
  have "(scast (word_of_nat n :: 32 word) :: 64 word) = word_of_nat n"
    unfolding scast_eq s by simp
  moreover have "unat (word_of_nat n :: 64 word) = n"
    using n by (simp add: unat_of_nat)
  ultimately show ?thesis unfolding cmyk_loop_bound_def e by (simp add: n_def)
qed

lemma cmyk_to_rgb_from_0:
  "cmyk_to_rgb 0 (w * h * 4) m i =
     (if i < 4 * (w * h) \<and> i mod 4 \<noteq> 3
      then (1 - m (4 * (i div 4) + 3)) * (1 - m i) else m i)"
  using cmyk_to_rgb_at [of 0 "w * h" m i] by (simp add: mult.commute)

lemma sup_tif: "supported_image False ''a.tif''"
  by (simp add: supported_image_def g_strrstr_def extensions_whitelist_def g_ascii_tolower_def)

subsection \<open>The extension test\<close>

lemma strncasecmp_begins_with:
  assumes "\<forall>c \<in> set w. of_char c \<noteq> (0::nat)"
  shows "(g_ascii_strncasecmp ext w (length w) = 0) = begins_with ext w"
  using assms
proof (induction w arbitrary: ext)
  case Nil
  then show ?case by (simp add: begins_with_def)
next
  case (Cons c2 w)
  show ?case
  proof (cases ext)
    case Nil
    with Cons.prems show ?thesis by (simp add: begins_with_def)
  next
    case (Cons c1 e)
    have "begins_with (c1 # e) (c2 # w) =
            (g_ascii_tolower c1 = g_ascii_tolower c2 \<and> begins_with e w)"
      by (auto simp: begins_with_def)
    moreover have "(g_ascii_strncasecmp e w (length w) = 0) = begins_with e w"
      using Cons.IH Cons.prems by simp
    ultimately show ?thesis using Cons by simp
  qed
qed

lemma whitelist_loop_ex:
  "whitelist_loop ext ws = (\<exists>w \<in> set ws. g_ascii_strncasecmp ext w (length w) = 0)"
  by (induction ws) auto

lemma last_occurrence_char:
  "last_occurrence s [d] =
     (if d \<in> set s then Some (d # rev (takeWhile (\<lambda>c. c \<noteq> d) (rev s))) else None)"
proof (induction s)
  case Nil
  then show ?case by simp
next
  case (Cons c cs)
  show ?case
  proof (cases "d \<in> set cs")
    case True
    then have "takeWhile (\<lambda>c. c \<noteq> d) (rev cs @ [c]) = takeWhile (\<lambda>c. c \<noteq> d) (rev cs)"
      by (intro takeWhile_append1 [of d]) simp_all
    with True Cons show ?thesis by simp
  next
    case False
    then have "takeWhile (\<lambda>c. c \<noteq> d) (rev cs @ [c]) = rev cs @ takeWhile (\<lambda>c. c \<noteq> d) [c]"
      by (intro takeWhile_append2) auto
    with False Cons show ?thesis by auto
  qed
qed

lemma no_nul_whitelisted:
  "\<forall>w \<in> set (whitelisted_extensions v7). \<forall>c \<in> set w. of_char c \<noteq> (0::nat)"
  by (simp add: whitelisted_extensions_def extensions_whitelist_def)

lemma supported_image_iff:
  "supported_image v7 fname =
     (\<exists>ext. last_extension fname = Some ext \<and>
            (\<exists>w \<in> set (whitelisted_extensions v7). begins_with ext w))"
proof -
  have q: "(g_ascii_strncasecmp ext ''qoi'' 3 = 0) = begins_with ext ''qoi''" for ext
    using strncasecmp_begins_with [of "''qoi''" ext] by (simp add: numeral_3_eq_3)
  have w: "whitelist_loop ext extensions_whitelist =
             (\<exists>w \<in> set extensions_whitelist. begins_with ext w)" for ext
    using no_nul_whitelisted [of False]
    by (simp add: whitelist_loop_ex whitelisted_extensions_def strncasecmp_begins_with)
  show ?thesis
    by (auto simp: supported_image_def g_strrstr_def last_occurrence_char last_extension_def
        whitelisted_extensions_def Let_def q w)
qed

subsection \<open>Return values and steps\<close>

lemma open_im_retval_OK_iff:
  fixes E :: "('a::{one,minus,times}) extern"
  shows "(retval (dt_imageio_open_im F v7 E img fname) = DT_IMAGEIO_OK) =
     (supported_image v7 fname \<and> NewMagickWand E \<and> MagickReadImage E fname \<and>
      (\<exists>mipbuf. dt_mipmap_cache_alloc E (set_dimensions E (read_exif E img fname)) = Some mipbuf
         \<and> fst (MagickExportImagePixels E 0 0 (MagickGetImageWidth E) (MagickGetImageHeight E)
             (if is_cmyk (MagickGetImageColorspace E) then ''CMYK'' else ''RGBP'') mipbuf)))"
  by (auto simp: dt_imageio_open_im_def Let_def split: option.splits prod.splits)

lemma open_im_OK_E:
  fixes E :: "('a::{one,minus,times}) extern"
  assumes "retval (dt_imageio_open_im F v7 E img fname) = DT_IMAGEIO_OK"
  obtains mipbuf exported where
    "supported_image v7 fname" "NewMagickWand E" "MagickReadImage E fname"
    "dt_mipmap_cache_alloc E (set_dimensions E (read_exif E img fname)) = Some mipbuf"
    "MagickExportImagePixels E 0 0 (MagickGetImageWidth E) (MagickGetImageHeight E)
       (if is_cmyk (MagickGetImageColorspace E) then ''CMYK'' else ''RGBP'') mipbuf
       = (True, exported)"
proof -
  from assms have "supported_image v7 fname \<and> NewMagickWand E \<and> MagickReadImage E fname \<and>
      (\<exists>mipbuf. dt_mipmap_cache_alloc E (set_dimensions E (read_exif E img fname)) = Some mipbuf
         \<and> fst (MagickExportImagePixels E 0 0 (MagickGetImageWidth E) (MagickGetImageHeight E)
             (if is_cmyk (MagickGetImageColorspace E) then ''CMYK'' else ''RGBP'') mipbuf))"
    by (simp only: open_im_retval_OK_iff)
  then obtain mipbuf where
    a: "supported_image v7 fname" "NewMagickWand E" "MagickReadImage E fname"
      "dt_mipmap_cache_alloc E (set_dimensions E (read_exif E img fname)) = Some mipbuf"
    and f: "fst (MagickExportImagePixels E 0 0 (MagickGetImageWidth E) (MagickGetImageHeight E)
             (if is_cmyk (MagickGetImageColorspace E) then ''CMYK'' else ''RGBP'') mipbuf)"
    by (elim conjE exE)
  obtain r exported where
    e: "MagickExportImagePixels E 0 0 (MagickGetImageWidth E) (MagickGetImageHeight E)
         (if is_cmyk (MagickGetImageColorspace E) then ''CMYK'' else ''RGBP'') mipbuf
        = (r, exported)"
    by (rule prod.exhaust)
  from f have "r" unfolding e by simp
  with e have "MagickExportImagePixels E 0 0 (MagickGetImageWidth E) (MagickGetImageHeight E)
         (if is_cmyk (MagickGetImageColorspace E) then ''CMYK'' else ''RGBP'') mipbuf
        = (True, exported)" by simp
  with a show thesis by (rule that)
qed






subsection \<open>The sample environments\<close>

lemma sample_alloc [simp]:
  "dt_mipmap_cache_alloc (sample_extern c) i = Some (\<lambda>i. 0)"
  "dt_mipmap_cache_alloc sample_extern_bad_pixels i = Some (\<lambda>i. 0)"
  "dt_mipmap_cache_alloc sample_extern_unreadable i = Some (\<lambda>i. 0)"
  "dt_mipmap_cache_alloc sample_extern_cache_full i = None"
  "dt_mipmap_cache_alloc sample_extern_no_memory i = Some (\<lambda>i. 0)"
  "dt_mipmap_cache_alloc sample_extern_no_profile i = Some (\<lambda>i. 0)"
  "dt_mipmap_cache_alloc sample_extern_icm i = Some (\<lambda>i. 0)"
  by (simp_all add: sample_extern_def sample_extern_bad_pixels_def sample_extern_unreadable_def
      sample_extern_cache_full_def sample_extern_no_memory_def sample_extern_no_profile_def
      sample_extern_icm_def)

lemma sample_retval_OK:
  "retval (dt_imageio_open_im sample_flags False (sample_extern c) i ''a.tif'') = DT_IMAGEIO_OK"
  "retval (dt_imageio_open_im sample_flags False sample_extern_no_memory i ''a.tif'')
     = DT_IMAGEIO_OK"
  "retval (dt_imageio_open_im sample_flags False sample_extern_no_profile i ''a.tif'')
     = DT_IMAGEIO_OK"
  "retval (dt_imageio_open_im sample_flags False sample_extern_icm i ''a.tif'')
     = DT_IMAGEIO_OK"
  unfolding open_im_retval_OK_iff using sup_tif
  by (simp_all add: sample_extern_def sample_extern_no_memory_def sample_extern_no_profile_def
      sample_extern_icm_def)

subsection \<open>The image record of a successful call\<close>


lemma set_ldr_rgb_fields:
  "width (set_ldr_rgb F i) = width i"
  "height (set_ldr_rgb F i) = height i"
  "profile (set_ldr_rgb F i) = profile i"
  "profile_size (set_ldr_rgb F i) = profile_size i"
  "loader (set_ldr_rgb F i) = LOADER_IM"
  "buf_dsc (set_ldr_rgb F i) = (buf_dsc i)\<lparr>cst := IOP_CS_RGB, filters := 0\<rparr>"
  "flags (set_ldr_rgb F i) =
     (((flags i AND NOT (DT_IMAGE_RAW F)) AND NOT (DT_IMAGE_S_RAW F)) AND NOT (DT_IMAGE_HDR F))
       OR DT_IMAGE_LDR F"
  by (simp_all add: set_ldr_rgb_def Let_def)

lemma set_dimensions_fields:
  "buf_dsc (set_dimensions E i) = (buf_dsc i)\<lparr>channels := 4, datatype' := TYPE_FLOAT\<rparr>"
  "flags (set_dimensions E i) = flags i"
  "profile (set_dimensions E i) = profile i"
  "profile_size (set_dimensions E i) = profile_size i"
  by (simp_all add: set_dimensions_def Let_def)


lemma open_im_OK_img_out:
  fixes E :: "('a::{one,minus,times}) extern"
  assumes "retval (dt_imageio_open_im F v7 E img fname) = DT_IMAGEIO_OK"
  shows "img_out (dt_imageio_open_im F v7 E img fname) =
           set_ldr_rgb F (fst (copy_profile E (set_dimensions E (read_exif E img fname))))"
proof -
  from assms obtain mipbuf exported where
    "supported_image v7 fname" "NewMagickWand E" "MagickReadImage E fname"
    "dt_mipmap_cache_alloc E (set_dimensions E (read_exif E img fname)) = Some mipbuf"
    "MagickExportImagePixels E 0 0 (MagickGetImageWidth E) (MagickGetImageHeight E)
       (if is_cmyk (MagickGetImageColorspace E) then ''CMYK'' else ''RGBP'') mipbuf
       = (True, exported)"
    by (rule open_im_OK_E)
  from open_im_success [OF this, of F] show ?thesis by simp
qed

lemma copy_profile_profile:
  "profile (fst (copy_profile E i)) =
     (case embedded_profile E of
        None \<Rightarrow> profile i
      | Some bytes \<Rightarrow> if g_try_malloc0 E (length bytes) then Some bytes else None)"
  "profile_size (fst (copy_profile E i)) =
     (case embedded_profile E of
        None \<Rightarrow> profile_size i
      | Some bytes \<Rightarrow> if g_try_malloc0 E (length bytes) then length bytes else profile_size i)"
  by (simp_all add: copy_profile_def embedded_profile_def memcpy_def Let_def
      split: option.splits)

subsection \<open>The claims on the loader\<close>

text \<open>
  The conversion of a CMY or CMYK image as long as the bound of the loop is formed without
  overflow, that is, for an image of fewer than \<open>2 ^ 29\<close> pixels. When the call reaches
  \<^verbatim>\<open>MagickExportImagePixels\<close> and the export succeeds, the buffer it leaves is the exported
  buffer with the first three channels \<open>c\<close> of each of the width times height pixels
  replaced by \<open>(1 - k) * (1 - c)\<close>, where \<open>k\<close> is the fourth channel of that pixel as
  exported; the fourth channel and everything behind the last pixel are as exported. For
  every other colorspace the buffer is the exported one, whatever the size. The arithmetic
  is that of the type of the buffer's elements, whatever it is.
\<close>

lemma cmyk_fixup_below_overflow:
  fixes E :: "('a::{one,minus,times}) extern"
  assumes "supported_image v7 fname" and "NewMagickWand E" and "MagickReadImage E fname"
    and "dt_mipmap_cache_alloc E (set_dimensions E (read_exif E img fname)) = Some mipbuf"
    and "MagickExportImagePixels E 0 0 (MagickGetImageWidth E) (MagickGetImageHeight E)
           (if MagickGetImageColorspace E = CMYColorspace
               \<or> MagickGetImageColorspace E = CMYKColorspace then ''CMYK'' else ''RGBP'')
           mipbuf = (True, exported)"
    and "MagickGetImageColorspace E = CMYColorspace
           \<or> MagickGetImageColorspace E = CMYKColorspace
         \<Longrightarrow> MagickGetImageWidth E * MagickGetImageHeight E * 4 < 2 ^ 31"
  shows "\<exists>fixed. mipbuf_out (dt_imageio_open_im F v7 E img fname) = Some fixed \<and>
     (if MagickGetImageColorspace E = CMYColorspace
         \<or> MagickGetImageColorspace E = CMYKColorspace
      then (\<forall>p < MagickGetImageWidth E * MagickGetImageHeight E.
              fixed (4 * p) = (1 - exported (4 * p + 3)) * (1 - exported (4 * p)) \<and>
              fixed (4 * p + 1) = (1 - exported (4 * p + 3)) * (1 - exported (4 * p + 1)) \<and>
              fixed (4 * p + 2) = (1 - exported (4 * p + 3)) * (1 - exported (4 * p + 2)) \<and>
              fixed (4 * p + 3) = exported (4 * p + 3))
         \<and> (\<forall>i \<ge> 4 * (MagickGetImageWidth E * MagickGetImageHeight E).
              fixed i = exported i)
      else fixed = exported)"
proof (cases "is_cmyk (MagickGetImageColorspace E)")
  case True
  let ?n = "MagickGetImageWidth E * MagickGetImageHeight E"
  let ?fixed = "cmyk_to_rgb 0 (?n * 4) exported"
  from True have c: "MagickGetImageColorspace E = CMYColorspace
         \<or> MagickGetImageColorspace E = CMYKColorspace" by (simp add: is_cmyk_def)
  have bound: "cmyk_loop_bound (MagickGetImageWidth E) (MagickGetImageHeight E) = ?n * 4"
    using assms(6) [OF c] by (rule cmyk_loop_bound_no_overflow)
  have out: "mipbuf_out (dt_imageio_open_im F v7 E img fname) = Some ?fixed"
    using open_im_success [of v7 fname E img mipbuf exported F] assms(1-5) True
    by (simp add: is_cmyk_def bound)
  have px: "?fixed (4 * p) = (1 - exported (4 * p + 3)) * (1 - exported (4 * p))"
       "?fixed (4 * p + 1) = (1 - exported (4 * p + 3)) * (1 - exported (4 * p + 1))"
       "?fixed (4 * p + 2) = (1 - exported (4 * p + 3)) * (1 - exported (4 * p + 2))"
       "?fixed (4 * p + 3) = exported (4 * p + 3)" if "p < ?n" for p
  proof -
    have d: "(4 * p) div 4 = p" "(4 * p + 1) div 4 = p" "(4 * p + 2) div 4 = p" by simp_all
    have m: "(4 * p) mod 4 = 0" "(4 * p + 1) mod 4 = 1" "(4 * p + 2) mod 4 = 2"
      "(4 * p + 3) mod 4 = 3" by (simp_all add: mod_Suc)
    have b: "4 * p < 4 * ?n" "4 * p + 1 < 4 * ?n" "4 * p + 2 < 4 * ?n" using that by simp_all
    show "?fixed (4 * p) = (1 - exported (4 * p + 3)) * (1 - exported (4 * p))"
      using b(1) by (simp only: cmyk_to_rgb_from_0 d m) simp
    show "?fixed (4 * p + 1) = (1 - exported (4 * p + 3)) * (1 - exported (4 * p + 1))"
      using b(2) by (simp only: cmyk_to_rgb_from_0 d m) simp
    show "?fixed (4 * p + 2) = (1 - exported (4 * p + 3)) * (1 - exported (4 * p + 2))"
      using b(3) by (simp only: cmyk_to_rgb_from_0 d m) simp
    show "?fixed (4 * p + 3) = exported (4 * p + 3)"
      by (simp only: cmyk_to_rgb_from_0 m) simp
  qed
  have rest: "?fixed i = exported i" if "4 * ?n \<le> i" for i
    using that by (simp add: cmyk_to_rgb_from_0)
  show ?thesis using out px rest c by auto
next
  case False
  then have "mipbuf_out (dt_imageio_open_im F v7 E img fname) = Some exported"
    using open_im_success [of v7 fname E img mipbuf exported F] assms(1-5)
    by (simp add: is_cmyk_def)
  with False show ?thesis by (simp add: is_cmyk_def)
qed

lemma cmyk_fixup_below_overflow_example:
  "supported_image False ''a.tif'' \<and>
   dt_mipmap_cache_alloc (sample_extern CMYKColorspace)
     (set_dimensions (sample_extern CMYKColorspace)
        (read_exif (sample_extern CMYKColorspace) sample_img ''a.tif'')) = Some (\<lambda>i. 0) \<and>
   MagickExportImagePixels (sample_extern CMYKColorspace) 0 0 2 1 ''CMYK'' (\<lambda>i. 0)
     = (True, sample_pixels) \<and>
   (\<exists>fixed.
      mipbuf_out (dt_imageio_open_im sample_flags False (sample_extern CMYKColorspace)
                    sample_img ''a.tif'') = Some fixed \<and>
      fixed 0 = 2/5 \<and> fixed 1 = 3/10 \<and> fixed 2 = 1/5 \<and> fixed 3 = 1/2 \<and>
      fixed 4 = 1 \<and> fixed 5 = 0 \<and> fixed 6 = 3/4 \<and> fixed 7 = 0 \<and> fixed 8 = 0) \<and>
   MagickExportImagePixels (sample_extern (OtherColorspace 7)) 0 0 2 1 ''RGBP'' (\<lambda>i. 0)
     = (True, sample_pixels) \<and>
   mipbuf_out (dt_imageio_open_im sample_flags False (sample_extern (OtherColorspace 7))
                 sample_img ''a.tif'') = Some sample_pixels"
proof -
  let ?E = "sample_extern CMYKColorspace"
  let ?R = "sample_extern (OtherColorspace 7)"
  have h1: "supported_image False ''a.tif''" by (rule sup_tif)
  have h2: "NewMagickWand (sample_extern c)" and h3: "MagickReadImage (sample_extern c) ''a.tif''"
    for c
    by (simp_all add: sample_extern_def)
  have h4: "dt_mipmap_cache_alloc (sample_extern c)
              (set_dimensions (sample_extern c) (read_exif (sample_extern c) sample_img ''a.tif''))
              = Some (\<lambda>i. 0)" for c
    by simp
  have h5: "MagickExportImagePixels (sample_extern c) 0 0 (MagickGetImageWidth (sample_extern c))
           (MagickGetImageHeight (sample_extern c))
           (if MagickGetImageColorspace (sample_extern c) = CMYColorspace
               \<or> MagickGetImageColorspace (sample_extern c) = CMYKColorspace
            then ''CMYK'' else ''RGBP'')
           (\<lambda>i. 0) = (True, sample_pixels)" for c
    by (simp add: sample_extern_def)
  have h6: "MagickGetImageWidth (sample_extern c) * MagickGetImageHeight (sample_extern c) * 4
              < 2 ^ 31" for c
    by (simp add: sample_extern_def)
  from cmyk_fixup_below_overflow [OF h1 h2 [of CMYKColorspace] h3 [of CMYKColorspace]
      h4 [of CMYKColorspace] h5 [of CMYKColorspace] h6 [of CMYKColorspace], of sample_flags]
  obtain fixed where
    out: "mipbuf_out (dt_imageio_open_im sample_flags False ?E sample_img ''a.tif'') = Some fixed"
    and px: "\<And>p. p < 2 \<Longrightarrow>
              fixed (4 * p) = (1 - sample_pixels (4 * p + 3)) * (1 - sample_pixels (4 * p)) \<and>
              fixed (4 * p + 1) = (1 - sample_pixels (4 * p + 3)) * (1 - sample_pixels (4 * p + 1)) \<and>
              fixed (4 * p + 2) = (1 - sample_pixels (4 * p + 3)) * (1 - sample_pixels (4 * p + 2)) \<and>
              fixed (4 * p + 3) = sample_pixels (4 * p + 3)"
    and rest: "\<And>i. 8 \<le> i \<Longrightarrow> fixed i = sample_pixels i"
    by (auto simp: sample_extern_def)
  from px [of 0] px [of 1] rest [of 8]
  have "fixed 0 = 2/5 \<and> fixed 1 = 3/10 \<and> fixed 2 = 1/5 \<and> fixed 3 = 1/2 \<and>
      fixed 4 = 1 \<and> fixed 5 = 0 \<and> fixed 6 = 3/4 \<and> fixed 7 = 0 \<and> fixed 8 = 0"
    by (simp add: sample_pixels_def eval_nat_numeral)
  with out have cmyk: "\<exists>fixed.
      mipbuf_out (dt_imageio_open_im sample_flags False ?E sample_img ''a.tif'') = Some fixed \<and>
      fixed 0 = 2/5 \<and> fixed 1 = 3/10 \<and> fixed 2 = 1/5 \<and> fixed 3 = 1/2 \<and>
      fixed 4 = 1 \<and> fixed 5 = 0 \<and> fixed 6 = 3/4 \<and> fixed 7 = 0 \<and> fixed 8 = 0"
    by blast
  from cmyk_fixup_below_overflow [OF h1 h2 [of "OtherColorspace 7"] h3 [of "OtherColorspace 7"]
      h4 [of "OtherColorspace 7"] h5 [of "OtherColorspace 7"] h6 [of "OtherColorspace 7"],
      of sample_flags]
  have rgb: "mipbuf_out (dt_imageio_open_im sample_flags False ?R sample_img ''a.tif'')
               = Some sample_pixels"
    by (auto simp: sample_extern_def)
  from cmyk rgb h1 h4 [of CMYKColorspace] h5 [of CMYKColorspace] h5 [of "OtherColorspace 7"]
  show ?thesis by (simp add: sample_extern_def)
qed

text \<open>
  Claim C1. For a CMY or CMYK image whose export succeeds every pixel of the buffer is to
  be rewritten, each of the first three channels \<open>c\<close> to \<open>(1 - k) * (1 - c)\<close> with \<open>k\<close> the
  fourth channel of the pixel. The loop of line 144 does not do so for a CMYK image of
  65536 by 16384 pixels: the product \<^verbatim>\<open>img->width * img->height * 4\<close> is \<open>2 ^ 32\<close>, which the
  32 bits of the fields' type do not hold; the bound is 0, the body never runs and the call
  returns \<^verbatim>\<open>DT_IMAGEIO_OK\<close> with the buffer as exported. The first channel of the first
  pixel is still \<open>1/5\<close>, where the conversion gives \<open>(1 - 1/2) * (1 - 1/5) = 2/5\<close>.
\<close>

theorem cmyk_fixup_skipped_on_overflow:
  "MagickGetImageWidth sample_extern_huge = 65536 \<and>
   MagickGetImageHeight sample_extern_huge = 16384 \<and>
   MagickGetImageColorspace sample_extern_huge = CMYKColorspace \<and>
   MagickExportImagePixels sample_extern_huge 0 0 65536 16384 ''CMYK'' (\<lambda>i. 0)
     = (True, sample_pixels) \<and>
   cmyk_loop_bound 65536 16384 = 0 \<and>
   retval (dt_imageio_open_im sample_flags False sample_extern_huge sample_img ''a.tif'')
     = DT_IMAGEIO_OK \<and>
   mipbuf_out (dt_imageio_open_im sample_flags False sample_extern_huge sample_img ''a.tif'')
     = Some sample_pixels \<and>
   sample_pixels 0 = 1/5 \<and> sample_pixels 3 = 1/2 \<and>
   (1 - sample_pixels 3) * (1 - sample_pixels 0) = 2/5"
proof -
  let ?E = "sample_extern_huge"
  have b: "cmyk_loop_bound 65536 16384 = 0" by (simp add: cmyk_loop_bound_def)
  have e: "MagickGetImageWidth ?E = 65536" "MagickGetImageHeight ?E = 16384"
    "MagickGetImageColorspace ?E = CMYKColorspace" "NewMagickWand ?E"
    "MagickReadImage ?E ''a.tif''"
    "dt_mipmap_cache_alloc ?E (set_dimensions ?E (read_exif ?E sample_img ''a.tif''))
       = Some (\<lambda>i. 0)"
    by (simp_all add: sample_extern_huge_def sample_extern_def)
  have x: "MagickExportImagePixels ?E 0 0 65536 16384 ''CMYK'' (\<lambda>i. 0) = (True, sample_pixels)"
    by (simp add: sample_extern_huge_def sample_extern_def)
  have x': "MagickExportImagePixels ?E 0 0 (MagickGetImageWidth ?E) (MagickGetImageHeight ?E)
              (if is_cmyk (MagickGetImageColorspace ?E) then ''CMYK'' else ''RGBP'') (\<lambda>i. 0)
            = (True, sample_pixels)"
    using x by (simp add: e is_cmyk_def)
  have loop: "cmyk_to_rgb 0 0 sample_pixels = sample_pixels"
    by (subst cmyk_to_rgb.simps) simp
  have out: "dt_imageio_open_im sample_flags False ?E sample_img ''a.tif'' =
       \<lparr>retval = DT_IMAGEIO_OK,
        img_out = set_ldr_rgb sample_flags
          (fst (copy_profile ?E (set_dimensions ?E (read_exif ?E sample_img ''a.tif'')))),
        mipbuf_out = Some sample_pixels,
        steps = (if \<not> exif_inited sample_img then [Call_dt_exif_read] else [])
          @ [Call_NewMagickWand, Call_MagickReadImage ''a.tif'', Call_MagickGetImageWidth,
             Call_MagickGetImageHeight, Call_dt_mipmap_cache_alloc,
             Call_MagickGetImageColorspace,
             Call_MagickExportImagePixels 0 0 65536 16384 ''CMYK'']
          @ [Loop_CMYK_to_RGB]
          @ snd (copy_profile ?E (set_dimensions ?E (read_exif ?E sample_img ''a.tif'')))
          @ [Call_DestroyMagickWand]\<rparr>"
    using open_im_success [OF sup_tif e(4) e(5) e(6) x', of sample_flags]
    by (simp add: e is_cmyk_def b loop)
  have p: "sample_pixels 0 = 1/5" "sample_pixels 3 = 1/2"
    "(1 - sample_pixels 3) * (1 - sample_pixels 0) = 2/5"
    by (simp_all add: sample_pixels_def)
  have r: "retval (dt_imageio_open_im sample_flags False ?E sample_img ''a.tif'')
             = DT_IMAGEIO_OK"
    "mipbuf_out (dt_imageio_open_im sample_flags False ?E sample_img ''a.tif'')
       = Some sample_pixels"
    by (simp_all add: out)
  show ?thesis by (intro conjI) (rule e x b p r)+
qed

text \<open>
  Claim C2, read by the letter, rejects every file name whose extension is not a prefix
  of a whitelisted extension. The code accepts \<^verbatim>\<open>a.tiffx\<close>: \<^verbatim>\<open>g_ascii_strncasecmp\<close> compares
  as many characters as the whitelisted extension has, so that \<^verbatim>\<open>tiffx\<close> passes for
  \<^verbatim>\<open>tiff\<close>, and the call goes on to the library.
\<close>

theorem prefix_of_whitelisted_counterexample:
  "last_extension ''a.tiffx'' = Some ''tiffx'' \<and>
   \<not> list_ex (matches_prefix_of ''tiffx'') (whitelisted_extensions False) \<and>
   retval (dt_imageio_open_im sample_flags False (sample_extern CMYKColorspace) sample_img
             ''a.tiffx'') = DT_IMAGEIO_OK \<and>
   hd (steps (dt_imageio_open_im sample_flags False (sample_extern CMYKColorspace) sample_img
             ''a.tiffx'')) = Call_NewMagickWand"
proof -
  have e: "last_extension ''a.tiffx'' = Some ''tiffx''"
    by (simp add: last_extension_def)
  have n: "\<not> list_ex (matches_prefix_of ''tiffx'') (whitelisted_extensions False)"
    by (simp add: whitelisted_extensions_def extensions_whitelist_def matches_prefix_of_def)
  have s: "supported_image False ''a.tiffx''"
    by (simp add: supported_image_def g_strrstr_def extensions_whitelist_def g_ascii_tolower_def)
  have "dt_mipmap_cache_alloc (sample_extern CMYKColorspace) i = Some (\<lambda>i. 0)" for i
    by (simp add: sample_extern_def)
  from open_im_success [of False "''a.tiffx''" "sample_extern CMYKColorspace", OF s _ _ this]
  have "retval (dt_imageio_open_im sample_flags False (sample_extern CMYKColorspace) sample_img
             ''a.tiffx'') = DT_IMAGEIO_OK \<and>
   hd (steps (dt_imageio_open_im sample_flags False (sample_extern CMYKColorspace) sample_img
             ''a.tiffx'')) = Call_NewMagickWand"
    by (simp add: sample_extern_def sample_img_def)
  with e n show ?thesis by blast
qed

text \<open>
  Claim C2, amended: a file name without a dot, or whose extension (the text after its
  last dot) does not begin, without regard to ASCII case, with one of the whitelisted
  extensions (with \<^verbatim>\<open>qoi\<close> among them under ImageMagick 7), makes \<^verbatim>\<open>dt_imageio_open_im\<close>
  return \<^verbatim>\<open>DT_IMAGEIO_LOAD_FAILED\<close> with no step taken, the image record as it was and
  no buffer.
\<close>

theorem unsupported_extension_rejected:
  fixes E :: "('a::{one,minus,times}) extern"
  assumes "CHR ''.'' \<notin> set fname \<or>
           (\<exists>ext. last_extension fname = Some ext \<and>
                  (\<forall>w \<in> set (whitelisted_extensions v7). \<not> begins_with ext w))"
  shows "dt_imageio_open_im F v7 E img fname =
           \<lparr>retval = DT_IMAGEIO_LOAD_FAILED, img_out = img, mipbuf_out = None, steps = []\<rparr>"
proof -
  from assms have "\<not> supported_image v7 fname"
    by (auto simp: supported_image_iff last_extension_def)
  then show ?thesis by (simp add: dt_imageio_open_im_def)
qed

theorem unsupported_extension_rejected_witness:
  "last_extension ''photo.cr2'' = Some ''cr2'' \<and>
   list_all (\<lambda>w. \<not> begins_with ''cr2'' w) (whitelisted_extensions True) \<and>
   dt_imageio_open_im sample_flags True (sample_extern CMYKColorspace) sample_img ''photo.cr2'' =
     \<lparr>retval = DT_IMAGEIO_LOAD_FAILED, img_out = sample_img, mipbuf_out = None, steps = []\<rparr> \<and>
   CHR ''.'' \<notin> set ''README'' \<and>
   dt_imageio_open_im sample_flags True (sample_extern CMYKColorspace) sample_img ''README'' =
     \<lparr>retval = DT_IMAGEIO_LOAD_FAILED, img_out = sample_img, mipbuf_out = None, steps = []\<rparr>"
proof -
  have e: "last_extension ''photo.cr2'' = Some ''cr2''"
    by (simp add: last_extension_def)
  have n: "list_all (\<lambda>w. \<not> begins_with ''cr2'' w) (whitelisted_extensions True)"
    by (simp add: whitelisted_extensions_def extensions_whitelist_def begins_with_def
        g_ascii_tolower_def)
  then have "\<forall>w \<in> set (whitelisted_extensions True). \<not> begins_with ''cr2'' w"
    by (simp add: list_all_iff)
  with e have h: "CHR ''.'' \<notin> set ''photo.cr2'' \<or>
           (\<exists>ext. last_extension ''photo.cr2'' = Some ext \<and>
                  (\<forall>w \<in> set (whitelisted_extensions True). \<not> begins_with ext w))"
    by blast
  have d: "CHR ''.'' \<notin> set ''README''" by simp
  then have h': "CHR ''.'' \<notin> set ''README'' \<or>
           (\<exists>ext. last_extension ''README'' = Some ext \<and>
                  (\<forall>w \<in> set (whitelisted_extensions True). \<not> begins_with ext w))"
    by blast
  from unsupported_extension_rejected [OF h] unsupported_extension_rejected [OF h'] e n d
  show ?thesis by blast
qed






text \<open>
  Claim C5 says that a successful call copies an embedded profile whenever the library
  reports one. When \<^verbatim>\<open>g_try_malloc0\<close> fails the call still returns \<^verbatim>\<open>DT_IMAGEIO_OK\<close>, with
  \<^verbatim>\<open>img->profile\<close> NULL and \<^verbatim>\<open>img->profile_size\<close> as it was.
\<close>

theorem profile_always_copied_counterexample:
  "retval (dt_imageio_open_im sample_flags False sample_extern_no_memory
      sample_img_with_profile ''a.tif'') = DT_IMAGEIO_OK \<and>
   MagickGetImageProfile sample_extern_no_memory ''icc'' = Some [1, 2, 3] \<and>
   profile sample_img_with_profile = Some [7, 7] \<and>
   profile_size sample_img_with_profile = 2 \<and>
   profile (img_out (dt_imageio_open_im sample_flags False sample_extern_no_memory
      sample_img_with_profile ''a.tif'')) = None \<and>
   profile_size (img_out (dt_imageio_open_im sample_flags False sample_extern_no_memory
      sample_img_with_profile ''a.tif'')) = 2"
proof -
  have ok: "retval (dt_imageio_open_im sample_flags False sample_extern_no_memory
      sample_img_with_profile ''a.tif'') = DT_IMAGEIO_OK"
    by (rule sample_retval_OK)
  have "embedded_profile sample_extern_no_memory = Some [1, 2, 3]"
    "MagickGetImageProfile sample_extern_no_memory ''icc'' = Some [1, 2, 3]"
    "\<not> g_try_malloc0 sample_extern_no_memory n" for n
    by (simp_all add: embedded_profile_def sample_extern_def sample_extern_no_memory_def)
  then show ?thesis
    unfolding open_im_OK_img_out [OF ok]
    using ok
    by (simp add: set_ldr_rgb_fields copy_profile_profile set_dimensions_fields read_exif_def
        sample_img_with_profile_def sample_img_def)
qed

text \<open>
  Claim C5, amended. After a successful call: if the library reports an \<^verbatim>\<open>icc\<close> profile, or
  otherwise an \<^verbatim>\<open>icm\<close> profile, and the block for it can be allocated, \<^verbatim>\<open>img->profile\<close>
  holds the profile's bytes and \<^verbatim>\<open>img->profile_size\<close> is their number; if the block cannot
  be allocated, \<^verbatim>\<open>img->profile\<close> is NULL and \<^verbatim>\<open>img->profile_size\<close> keeps its value; if there
  is neither profile, both fields keep their values. The values kept are those after the
  EXIF read of lines 83 and 84, which are the caller's when \<^verbatim>\<open>img->exif_inited\<close> was set.
\<close>

theorem open_im_copies_profile:
  fixes E :: "('a::{one,minus,times}) extern"
  assumes "retval (dt_imageio_open_im F v7 E img fname) = DT_IMAGEIO_OK"
  shows "case embedded_profile E of
           Some bytes \<Rightarrow>
             if g_try_malloc0 E (length bytes)
             then profile (img_out (dt_imageio_open_im F v7 E img fname)) = Some bytes \<and>
                  profile_size (img_out (dt_imageio_open_im F v7 E img fname)) = length bytes
             else profile (img_out (dt_imageio_open_im F v7 E img fname)) = None \<and>
                  profile_size (img_out (dt_imageio_open_im F v7 E img fname)) =
                    profile_size (read_exif E img fname)
         | None \<Rightarrow>
             profile (img_out (dt_imageio_open_im F v7 E img fname)) =
               profile (read_exif E img fname) \<and>
             profile_size (img_out (dt_imageio_open_im F v7 E img fname)) =
               profile_size (read_exif E img fname)"
  unfolding open_im_OK_img_out [OF assms]
  by (simp add: set_ldr_rgb_fields copy_profile_profile set_dimensions_fields
      split: option.splits)

theorem open_im_copies_profile_witness:
  "embedded_profile (sample_extern CMYKColorspace) = Some [1, 2, 3] \<and>
   g_try_malloc0 (sample_extern CMYKColorspace) 3 \<and>
   profile (img_out (dt_imageio_open_im sample_flags False (sample_extern CMYKColorspace)
      sample_img_with_profile ''a.tif'')) = Some [1, 2, 3] \<and>
   profile_size (img_out (dt_imageio_open_im sample_flags False (sample_extern CMYKColorspace)
      sample_img_with_profile ''a.tif'')) = 3 \<and>
   MagickGetImageProfile sample_extern_icm ''icc'' = None \<and>
   embedded_profile sample_extern_icm = Some [4, 5] \<and>
   profile (img_out (dt_imageio_open_im sample_flags False sample_extern_icm
      sample_img_with_profile ''a.tif'')) = Some [4, 5] \<and>
   profile_size (img_out (dt_imageio_open_im sample_flags False sample_extern_icm
      sample_img_with_profile ''a.tif'')) = 2 \<and>
   embedded_profile sample_extern_no_profile = None \<and>
   profile (img_out (dt_imageio_open_im sample_flags False sample_extern_no_profile
      sample_img_with_profile ''a.tif'')) = Some [7, 7] \<and>
   profile_size (img_out (dt_imageio_open_im sample_flags False sample_extern_no_profile
      sample_img_with_profile ''a.tif'')) = 2 \<and>
   \<not> g_try_malloc0 sample_extern_no_memory 3 \<and>
   profile (img_out (dt_imageio_open_im sample_flags False sample_extern_no_memory
      sample_img_with_profile ''a.tif'')) = None \<and>
   profile_size (img_out (dt_imageio_open_im sample_flags False sample_extern_no_memory
      sample_img_with_profile ''a.tif'')) = 2"
proof -
  have e: "embedded_profile (sample_extern CMYKColorspace) = Some [1, 2, 3]"
    "embedded_profile sample_extern_icm = Some [4, 5]"
    "embedded_profile sample_extern_no_profile = None"
    "embedded_profile sample_extern_no_memory = Some [1, 2, 3]"
    "MagickGetImageProfile sample_extern_icm ''icc'' = None"
    by (simp_all add: embedded_profile_def sample_extern_def sample_extern_icm_def
        sample_extern_no_profile_def sample_extern_no_memory_def)
  have m: "g_try_malloc0 (sample_extern CMYKColorspace) n" "g_try_malloc0 sample_extern_icm n"
    "\<not> g_try_malloc0 sample_extern_no_memory n" for n
    by (simp_all add: sample_extern_def sample_extern_icm_def sample_extern_no_memory_def)
  have r: "profile (read_exif E sample_img_with_profile f) = Some [7, 7]"
    "profile_size (read_exif E sample_img_with_profile f) = 2" for E :: "real extern" and f
    by (simp_all add: read_exif_def sample_img_with_profile_def sample_img_def)
  note t = open_im_copies_profile [OF sample_retval_OK(1) [of CMYKColorspace sample_img_with_profile]]
    open_im_copies_profile [OF sample_retval_OK(4) [of sample_img_with_profile]]
    open_im_copies_profile [OF sample_retval_OK(3) [of sample_img_with_profile]]
    open_im_copies_profile [OF sample_retval_OK(2) [of sample_img_with_profile]]
  show ?thesis using t by (simp add: e m r)
qed

section \<open>Properties of the lighttable tool\<close>

subsection \<open>What each function leaves alone\<close>

lemmas gtk_setters =
  gtk_toggle_button_set_active_def gtk_widget_queue_draw_def gtk_widget_set_tooltip_text_def
  gtk_widget_set_sensitive_def gtk_widget_set_visible_def

lemma update_btn_loop_fields:
  "toggle_active (update_btn_loop ws a g) w =
     (if w \<in> set ws then w = a else toggle_active g w)"
  "spin_value (update_btn_loop ws a g) = spin_value g"
  "container_children (update_btn_loop ws a g) = container_children g"
  by (induction ws arbitrary: g) (auto simp: gtk_setters)

lemma update_btn_tooltips_fields:
  "toggle_active (update_btn_tooltips L d fp g) = toggle_active g"
  "spin_value (update_btn_tooltips L d fp g) = spin_value g"
  "container_children (update_btn_tooltips L d fp g) = container_children g"
  by (simp_all add: update_btn_tooltips_def gtk_setters Let_def)

lemma update_btn_restricted_fields:
  "toggle_active (update_btn_restricted L d fp vm g) w =
     (if w = layout_culling_restricted d
      then (layout d = DT_LIGHTTABLE_LAYOUT_CULLING L \<or> fp) \<and>
           dt_view_lighttable_culling_restricted_state vm
             = DT_LIGHTTABLE_CULLING_RESTRICTION_SELECTION
      else toggle_active g w)"
  "spin_value (update_btn_restricted L d fp vm g) = spin_value g"
  "container_children (update_btn_restricted L d fp vm g) = container_children g"
  by (simp_all add: update_btn_restricted_def gtk_setters Let_def)

lemma set_zoom_fields:
  "data (set_zoom L s z) = data s"
  "gtk (set_zoom L s z) = gtk s"
  "view_manager (set_zoom L s z) = view_manager s"
  "selected_count (set_zoom L s z) = selected_count s"
  "conf (set_zoom L s z) ''plugins/lighttable/layout'' = conf s ''plugins/lighttable/layout''"
  "conf (set_zoom L s z) ''plugins/lighttable/base_layout''
     = conf s ''plugins/lighttable/base_layout''"
  by (simp_all add: set_zoom_def dt_conf_set_int_def dt_control_queue_redraw_center_def
      dt_thumbtable_zoom_changed_def Let_def)

lemma zoom_slider_changed_fields:
  "data (lib_lighttable_zoom_slider_changed L s w) =
     (data s)\<lparr>current_zoom := spin_value (gtk s) w\<rparr>"
  "gtk (lib_lighttable_zoom_slider_changed L s w) = gtk s"
  "view_manager (lib_lighttable_zoom_slider_changed L s w) = view_manager s"
  "selected_count (lib_lighttable_zoom_slider_changed L s w) = selected_count s"
  "conf (lib_lighttable_zoom_slider_changed L s w) ''plugins/lighttable/layout''
     = conf s ''plugins/lighttable/layout''"
  "conf (lib_lighttable_zoom_slider_changed L s w) ''plugins/lighttable/base_layout''
     = conf s ''plugins/lighttable/base_layout''"
  by (simp_all add: lib_lighttable_zoom_slider_changed_def set_zoom_fields Let_def)

lemma spin_button_set_value_fields:
  "data (gtk_spin_button_set_value L s w v) =
     (if spin_value (gtk s) w = spin_clamp L v then data s
      else (data s)\<lparr>current_zoom := spin_clamp L v\<rparr>)"
  "gtk (gtk_spin_button_set_value L s w v) =
     (if spin_value (gtk s) w = spin_clamp L v then gtk s
      else (gtk s)\<lparr>spin_value := (spin_value (gtk s))(w := spin_clamp L v)\<rparr>)"
  "view_manager (gtk_spin_button_set_value L s w v) = view_manager s"
  "selected_count (gtk_spin_button_set_value L s w v) = selected_count s"
  "conf (gtk_spin_button_set_value L s w v) ''plugins/lighttable/layout''
     = conf s ''plugins/lighttable/layout''"
  "conf (gtk_spin_button_set_value L s w v) ''plugins/lighttable/base_layout''
     = conf s ''plugins/lighttable/base_layout''"
  by (simp_all add: gtk_spin_button_set_value_def zoom_slider_changed_fields)

lemma spin_button_set_value_same:
  "spin_value (gtk s) w = spin_clamp L v \<Longrightarrow> gtk_spin_button_set_value L s w v = s"
  by (simp add: gtk_spin_button_set_value_def)

text \<open>The zoom proxy.\<close>

lemma set_zoom_proxy_fields:
  "data (lib_lighttable_set_zoom L s z) = (data s)\<lparr>current_zoom := z\<rparr>"
  "view_manager (lib_lighttable_set_zoom L s z) = view_manager s"
  "spin_value (gtk (lib_lighttable_set_zoom L s z)) (zoom (data s)) = spin_clamp L z"
  "toggle_active (gtk (lib_lighttable_set_zoom L s z)) = toggle_active (gtk s)"
  by (simp_all add: lib_lighttable_set_zoom_def spin_button_set_value_fields Let_def)

lemma update_btn_fields:
  "view_manager (lib_lighttable_update_btn L s) = view_manager s"
  "selected_count (lib_lighttable_update_btn L s) = selected_count s"
  "data (lib_lighttable_update_btn L s) =
     (if zoom_shown L s then data s
      else (data s)\<lparr>current_zoom := spin_clamp L (current_zoom (data s))\<rparr>)"
  "conf (lib_lighttable_update_btn L s) ''plugins/lighttable/layout''
     = conf s ''plugins/lighttable/layout''"
  "conf (lib_lighttable_update_btn L s) ''plugins/lighttable/base_layout''
     = conf s ''plugins/lighttable/base_layout''"
  by (simp_all add: lib_lighttable_update_btn_def Let_def spin_button_set_value_fields
      zoom_shown_def gtk_setters update_btn_loop_fields update_btn_tooltips_fields)

lemma update_btn_keeps:
  "layout (data (lib_lighttable_update_btn L s)) = layout (data s)"
  "base_layout (data (lib_lighttable_update_btn L s)) = base_layout (data s)"
  "layout_box (data (lib_lighttable_update_btn L s)) = layout_box (data s)"
  "layout_filemanager (data (lib_lighttable_update_btn L s)) = layout_filemanager (data s)"
  "layout_zoomable (data (lib_lighttable_update_btn L s)) = layout_zoomable (data s)"
  "layout_culling_fix (data (lib_lighttable_update_btn L s)) = layout_culling_fix (data s)"
  "layout_culling_dynamic (data (lib_lighttable_update_btn L s)) = layout_culling_dynamic (data s)"
  "layout_preview (data (lib_lighttable_update_btn L s)) = layout_preview (data s)"
  "layout_culling_restricted (data (lib_lighttable_update_btn L s))
     = layout_culling_restricted (data s)"
  "zoom (data (lib_lighttable_update_btn L s)) = zoom (data s)"
  by (simp_all add: update_btn_fields)

lemma update_btn_toggle_active:
  "toggle_active (gtk (lib_lighttable_update_btn L s)) w =
     (if w = layout_culling_restricted (data s)
      then (layout (data s) = DT_LIGHTTABLE_LAYOUT_CULLING L \<or> preview_state (view_manager s))
           \<and> culling_restricted_state (view_manager s)
               = DT_LIGHTTABLE_CULLING_RESTRICTION_SELECTION
      else if w \<in> set (container_children (gtk s) (layout_box (data s)))
      then w = active_btn L (data s) (preview_state (view_manager s))
      else toggle_active (gtk s) w)"
  by (simp add: lib_lighttable_update_btn_def Let_def spin_button_set_value_fields
      update_btn_restricted_fields update_btn_loop_fields update_btn_tooltips_fields
      gtk_setters gtk_container_get_children_def dt_view_lighttable_preview_state_def
      dt_view_lighttable_culling_restricted_state_def)

lemma update_btn_when_zoom_shown:
  assumes "zoom_shown L s"
  shows "lib_lighttable_update_btn L s = s\<lparr>gtk := gtk (lib_lighttable_update_btn L s)\<rparr>"
proof -
  let ?g3 = "gtk_widget_set_sensitive
     (update_btn_tooltips L (data s) (dt_view_lighttable_preview_state (view_manager s))
        (update_btn_loop (gtk_container_get_children (gtk s) (layout_box (data s)))
           (active_btn L (data s) (dt_view_lighttable_preview_state (view_manager s))) (gtk s)))
     (zoom (data s))
     (layout (data s) \<noteq> DT_LIGHTTABLE_LAYOUT_CULLING_DYNAMIC L
        \<and> \<not> dt_view_lighttable_preview_state (view_manager s))"
  have "spin_value ?g3 = spin_value (gtk s)"
    by (simp add: gtk_setters update_btn_tooltips_fields update_btn_loop_fields)
  with assms have "spin_value (gtk (s\<lparr>gtk := ?g3\<rparr>)) (zoom (data s))
      = spin_clamp L (current_zoom (data s))"
    by (simp add: zoom_shown_def)
  then have "gtk_spin_button_set_value L (s\<lparr>gtk := ?g3\<rparr>) (zoom (data s))
      (current_zoom (data s)) = s\<lparr>gtk := ?g3\<rparr>"
    by (rule spin_button_set_value_same)
  then show ?thesis
    by (simp add: lib_lighttable_update_btn_def Let_def)
qed


lemma update_btn_layout_button:
  assumes "widgets_set_up s" and "w \<in> set (layout_buttons (data s))"
  shows "toggle_active (gtk (lib_lighttable_update_btn L s)) w =
           (w = active_btn L (data s) (preview_state (view_manager s)))"
proof -
  from assms have "w \<noteq> layout_culling_restricted (data s)"
    and "w \<in> set (container_children (gtk s) (layout_box (data s)))"
    by (auto simp: widgets_set_up_def)
  then show ?thesis by (simp add: update_btn_toggle_active)
qed

lemma set_layout_layout:
  "layout (data (lib_lighttable_set_layout L s l)) =
     (if l = DT_LIGHTTABLE_LAYOUT_PREVIEW L then layout (data s) else l)"
  by (simp add: lib_lighttable_set_layout_def Let_def update_btn_keeps dt_conf_set_int_def
      dt_control_queue_redraw_center_def)

lemma set_layout_base_layout:
  "base_layout (data (lib_lighttable_set_layout L s l)) =
     (if l \<noteq> DT_LIGHTTABLE_LAYOUT_PREVIEW L \<and> conf s ''plugins/lighttable/layout'' \<noteq> l \<and>
         (l = DT_LIGHTTABLE_LAYOUT_FILEMANAGER L \<or> l = DT_LIGHTTABLE_LAYOUT_ZOOMABLE L)
      then l else base_layout (data s))"
  by (simp add: lib_lighttable_set_layout_def Let_def update_btn_keeps dt_conf_set_int_def
      dt_control_queue_redraw_center_def dt_conf_get_int_def)

lemma set_layout_preview_state:
  "preview_state (view_manager (lib_lighttable_set_layout L s l)) =
     (l = DT_LIGHTTABLE_LAYOUT_PREVIEW L)"
  by (auto simp: lib_lighttable_set_layout_def Let_def update_btn_fields dt_conf_set_int_def
      dt_control_queue_redraw_center_def dt_view_lighttable_set_preview_state_def
      dt_view_lighttable_preview_state_def)

lemma set_layout_widgets:
  "layout_box (data (lib_lighttable_set_layout L s l)) = layout_box (data s)"
  "layout_filemanager (data (lib_lighttable_set_layout L s l)) = layout_filemanager (data s)"
  "layout_zoomable (data (lib_lighttable_set_layout L s l)) = layout_zoomable (data s)"
  "layout_culling_fix (data (lib_lighttable_set_layout L s l)) = layout_culling_fix (data s)"
  "layout_culling_dynamic (data (lib_lighttable_set_layout L s l))
     = layout_culling_dynamic (data s)"
  "layout_preview (data (lib_lighttable_set_layout L s l)) = layout_preview (data s)"
  "layout_culling_restricted (data (lib_lighttable_set_layout L s l))
     = layout_culling_restricted (data s)"
  "zoom (data (lib_lighttable_set_layout L s l)) = zoom (data s)"
  by (simp_all add: lib_lighttable_set_layout_def Let_def update_btn_keeps dt_conf_set_int_def
      dt_control_queue_redraw_center_def)

subsection \<open>The spin button shows the zoom\<close>

lemma spin_clamp_idem:
  "1 \<le> DT_LIGHTTABLE_MAX_ZOOM L \<Longrightarrow> spin_clamp L (spin_clamp L v) = spin_clamp L v"
  by (simp add: spin_clamp_def)

lemma update_btn_spin_value:
  "spin_value (gtk (lib_lighttable_update_btn L s)) (zoom (data s)) =
     spin_clamp L (current_zoom (data s))"
  by (simp add: lib_lighttable_update_btn_def Let_def spin_button_set_value_fields
      update_btn_restricted_fields)

lemma update_btn_zoom_shown:
  assumes "1 \<le> DT_LIGHTTABLE_MAX_ZOOM L"
  shows "zoom_shown L (lib_lighttable_update_btn L s)"
  unfolding zoom_shown_def update_btn_keeps update_btn_spin_value
  by (simp add: update_btn_fields spin_clamp_idem [OF assms])

lemma set_layout_ends_with_update_btn:
  "\<exists>t. lib_lighttable_set_layout L s l = lib_lighttable_update_btn L t"
  by (simp add: lib_lighttable_set_layout_def Let_def) blast

lemma set_layout_zoom_shown:
  assumes "1 \<le> DT_LIGHTTABLE_MAX_ZOOM L"
  shows "zoom_shown L (lib_lighttable_set_layout L s l)"
  using set_layout_ends_with_update_btn [of L s l] update_btn_zoom_shown [OF assms]
  by auto

lemma redraw_center_zoom_shown:
  "zoom_shown L (dt_control_queue_redraw_center s) = zoom_shown L s"
  by (simp add: zoom_shown_def dt_control_queue_redraw_center_def)

lemma set_zoom_proxy_zoom_shown: "zoom_shown L (lib_lighttable_set_zoom L s z)"
  by (simp add: zoom_shown_def set_zoom_proxy_fields)

lemma spin_button_zoom_shown:
  assumes "1 \<le> DT_LIGHTTABLE_MAX_ZOOM L" and "zoom_shown L s"
  shows "zoom_shown L (gtk_spin_button_set_value L s (zoom (data s)) v)"
  using assms(2)
  by (simp add: zoom_shown_def spin_button_set_value_fields spin_clamp_idem [OF assms(1)])

lemma run_operation_zoom_shown:
  assumes "1 \<le> DT_LIGHTTABLE_MAX_ZOOM L" and "zoom_shown L s"
  shows "zoom_shown L (run_operation L s x)"
proof (cases x)
  case (Layout_btn_release w ctrl)
  then show ?thesis
    using assms(2) set_layout_zoom_shown [OF assms(1)]
    by (simp add: lib_lighttable_layout_btn_release_def Let_def)
next
  case (Action_culling e f p)
  then show ?thesis
    using assms(2) update_btn_zoom_shown [OF assms(1)]
    by (simp add: action_process_culling_def)
next
  case (Action_preview e f p)
  then show ?thesis
    using assms(2) update_btn_zoom_shown [OF assms(1)]
    by (simp add: action_process_preview_def)
next
  case (Lua_layout arg)
  then show ?thesis
    using assms(2) set_layout_zoom_shown [OF assms(1)]
    by (simp add: layout_cb_def Let_def split: option.splits)
next
  case (Lua_zoom_level arg)
  then show ?thesis
    using assms(2) set_zoom_proxy_zoom_shown
    by (simp add: zoom_level_cb_def Let_def split: option.splits)
qed (use assms set_layout_zoom_shown [OF assms(1)] update_btn_zoom_shown [OF assms(1)]
      set_zoom_proxy_zoom_shown spin_button_zoom_shown in
    \<open>simp_all add: lib_lighttable_key_accel_toggle_filemanager_def
      lib_lighttable_key_accel_toggle_zoomable_def
      lib_lighttable_key_accel_toggle_culling_dynamic_mode_def
      lib_lighttable_key_accel_toggle_culling_zoom_mode_def
      lib_lighttable_key_accel_toggle_restricted_mode_def
      lib_lighttable_key_accel_exit_layout_def
      lib_lighttable_restricted_btn_release_def Let_def redraw_center_zoom_shown\<close>)

lemma run_operations_zoom_shown:
  assumes "1 \<le> DT_LIGHTTABLE_MAX_ZOOM L"
  shows "zoom_shown L s \<Longrightarrow> zoom_shown L (run_operations L s xs)"
  by (induction xs arbitrary: s) (simp_all add: run_operation_zoom_shown [OF assms])

subsection \<open>The sample module\<close>

lemma sample_set_up:
  "widgets_set_up sample_darktable" "enumerators_distinct sample_view_h"
  "zoom_shown sample_view_h sample_darktable"
  by (simp_all add: widgets_set_up_def layout_buttons_def enumerators_distinct_def
      zoom_shown_def spin_clamp_def sample_darktable_def sample_data_def sample_gtk_def
      sample_view_h_def)

subsection \<open>The base layout\<close>





subsection \<open>The widgets stay as they were set up\<close>

lemma same_widgets_refl: "same_widgets s s"
  by (simp add: same_widgets_def)

lemma same_widgets_trans: "same_widgets s t \<Longrightarrow> same_widgets t u \<Longrightarrow> same_widgets s u"
  by (simp add: same_widgets_def)

lemma update_btn_children:
  "container_children (gtk (lib_lighttable_update_btn L s)) = container_children (gtk s)"
  by (simp add: lib_lighttable_update_btn_def Let_def spin_button_set_value_fields
      update_btn_restricted_fields update_btn_loop_fields update_btn_tooltips_fields
      gtk_setters)

lemma same_widgets_update_btn: "same_widgets s (lib_lighttable_update_btn L s)"
  by (simp add: same_widgets_def update_btn_children update_btn_keeps)

lemma same_widgets_update_btn': 
  "same_widgets s t \<Longrightarrow> same_widgets s (lib_lighttable_update_btn L t)"
  using same_widgets_trans same_widgets_update_btn by blast

lemma set_layout_children:
  "container_children (gtk (lib_lighttable_set_layout L s l)) = container_children (gtk s)"
  by (simp add: lib_lighttable_set_layout_def Let_def update_btn_children dt_conf_set_int_def
      dt_control_queue_redraw_center_def)

lemma same_widgets_set_layout: "same_widgets s (lib_lighttable_set_layout L s l)"
  by (simp add: same_widgets_def set_layout_widgets set_layout_children)

lemma same_widgets_set_layout':
  "same_widgets s t \<Longrightarrow> same_widgets s (lib_lighttable_set_layout L t l)"
  using same_widgets_trans same_widgets_set_layout by blast

lemma same_widgets_spin: "same_widgets s (gtk_spin_button_set_value L s w v)"
  by (simp add: same_widgets_def spin_button_set_value_fields)

lemma same_widgets_set_zoom: "same_widgets s (lib_lighttable_set_zoom L s z)"
  by (simp add: same_widgets_def lib_lighttable_set_zoom_def Let_def
      spin_button_set_value_fields)

lemma same_widgets_simple:
  "same_widgets s (s\<lparr>data := (data s)\<lparr>fullpreview_focus := b\<rparr>\<rparr>)"
  "same_widgets s (s\<lparr>data := (data s)\<lparr>culling_init_restriction := r\<rparr>\<rparr>)"
  "same_widgets s (s\<lparr>view_manager := vm\<rparr>)"
  "same_widgets s (dt_control_queue_redraw_center s)"
  by (simp_all add: same_widgets_def dt_control_queue_redraw_center_def)

lemma same_widgets_redraw':
  "same_widgets s t \<Longrightarrow> same_widgets s (dt_control_queue_redraw_center t)"
  by (simp add: same_widgets_def dt_control_queue_redraw_center_def)

lemma same_widgets_run_operation: "same_widgets s (run_operation L s x)"
proof (cases x)
  case (Layout_btn_release w ctrl)
  then show ?thesis
    by (simp add: lib_lighttable_layout_btn_release_def Let_def same_widgets_refl
        same_widgets_set_layout same_widgets_set_layout' same_widgets_simple)
next
  case (Action_culling e f p)
  then show ?thesis
    by (simp add: action_process_culling_def same_widgets_refl same_widgets_update_btn
        same_widgets_update_btn' same_widgets_set_layout same_widgets_set_layout'
        same_widgets_simple)
next
  case (Action_preview e f p)
  then show ?thesis
    by (simp add: action_process_preview_def Let_def same_widgets_refl same_widgets_update_btn
        same_widgets_update_btn' same_widgets_set_layout same_widgets_simple)
next
  case (Lua_layout arg)
  then show ?thesis
    by (simp add: layout_cb_def Let_def same_widgets_refl same_widgets_set_layout
        split: option.splits)
next
  case (Lua_zoom_level arg)
  then show ?thesis
    by (simp add: zoom_level_cb_def Let_def same_widgets_refl same_widgets_set_zoom
        split: option.splits)
qed (simp_all add: lib_lighttable_key_accel_toggle_filemanager_def
      lib_lighttable_key_accel_toggle_zoomable_def
      lib_lighttable_key_accel_toggle_culling_dynamic_mode_def
      lib_lighttable_key_accel_toggle_culling_zoom_mode_def
      lib_lighttable_key_accel_toggle_restricted_mode_def
      lib_lighttable_key_accel_exit_layout_def
      lib_lighttable_restricted_btn_release_def Let_def
      same_widgets_refl same_widgets_update_btn same_widgets_update_btn'
      same_widgets_set_layout same_widgets_set_layout' same_widgets_simple
      same_widgets_redraw' same_widgets_spin same_widgets_set_zoom)

lemma widgets_set_up_same: "same_widgets s t \<Longrightarrow> widgets_set_up s \<Longrightarrow> widgets_set_up t"
  by (simp add: same_widgets_def widgets_set_up_def layout_buttons_def)

lemma run_operations_widgets_set_up:
  "widgets_set_up s \<Longrightarrow> widgets_set_up (run_operations L s xs)"
proof (induction xs arbitrary: s)
  case Nil
  then show ?case by simp
next
  case (Cons x xs)
  from same_widgets_run_operation Cons.prems have "widgets_set_up (run_operation L s x)"
    by (rule widgets_set_up_same)
  then show ?case using Cons.IH by simp
qed

subsection \<open>The buttons after a change of layout\<close>





subsection \<open>The sample module in a culling layout and in the full preview\<close>





subsection \<open>What \<^verbatim>\<open>gui_init\<close> sets up\<close>

lemmas gtk_constructors =
  dtgtk_togglebutton_new_def dt_gui_hbox_def gtk_spin_button_new_with_range_def

lemma gui_init_widgets_set_up: "widgets_set_up (gui_init_widgets L zero s)"
  by (simp add: widgets_set_up_def layout_buttons_def gui_init_widgets_def Let_def
      gtk_constructors gtk_setters)

lemma gui_init_widgets_zoom_shown: "zoom_shown L (gui_init_widgets L zero s)"
  by (simp add: zoom_shown_def gui_init_widgets_def Let_def gtk_constructors gtk_setters)

lemma gui_init_unfolded:
  "gui_init L zero s =
     (gui_init_widgets L zero s)\<lparr>gtk := gtk (gui_init L zero s)\<rparr>"
  unfolding gui_init_def
  using update_btn_when_zoom_shown [OF gui_init_widgets_zoom_shown] .

lemma gui_init_set_up:
  "widgets_set_up (gui_init L zero s)" "zoom_shown L (gui_init L zero s)"
proof -
  show "widgets_set_up (gui_init L zero s)"
    unfolding gui_init_def
    using same_widgets_update_btn gui_init_widgets_set_up by (rule widgets_set_up_same)
  have "data (gui_init L zero s) = data (gui_init_widgets L zero s)"
    unfolding gui_init_def
    by (simp add: update_btn_fields gui_init_widgets_zoom_shown)
  then show "zoom_shown L (gui_init L zero s)"
    using update_btn_spin_value [of L "gui_init_widgets L zero s"]
      gui_init_widgets_zoom_shown [of L zero s]
    by (simp add: zoom_shown_def gui_init_def)
qed

lemma gui_init_layouts:
  "layout (data (gui_init L zero s)) =
     min (DT_LIGHTTABLE_LAYOUT_LAST L - 1) (conf s ''plugins/lighttable/layout'')"
  "base_layout (data (gui_init L zero s)) =
     min (DT_LIGHTTABLE_LAYOUT_LAST L - 1) (conf s ''plugins/lighttable/base_layout'')"
  by (simp_all add: gui_init_def update_btn_keeps gui_init_widgets_def Let_def
      dt_conf_get_int_def split_def)

text \<open>Every state the module gets into, from \<^verbatim>\<open>gui_init\<close> on.\<close>

lemma reachable_set_up:
  "widgets_set_up (run_operations L (gui_init L zero s) xs)"
  "1 \<le> DT_LIGHTTABLE_MAX_ZOOM L \<Longrightarrow> zoom_shown L (run_operations L (gui_init L zero s) xs)"
  by (simp_all add: run_operations_widgets_set_up run_operations_zoom_shown gui_init_set_up)

subsection \<open>The claims on the lighttable tool\<close>

text \<open>
  Claim C6. In a module set up as \<^verbatim>\<open>gui_init\<close> leaves it and every operation keeps it
  (lemma \<open>reachable_set_up\<close>: the five layout buttons are the children of the box and,
  with the restriction button, six different widgets), and for enumerators that are
  different numbers: after \<^verbatim>\<open>_lib_lighttable_update_btn\<close> exactly one
  of the five buttons is active. It is the preview button when the full preview is on;
  otherwise the dynamic culling, fixed culling or zoomable button when the layout is the
  one of that name, and the filemanager button for every other value of the layout.
\<close>

theorem update_btn_one_button_active:
  assumes "widgets_set_up s" and "enumerators_distinct L"
  shows "length (filter (toggle_active (gtk (lib_lighttable_update_btn L s)))
                  (layout_buttons (data s))) = 1 \<and>
    toggle_active (gtk (lib_lighttable_update_btn L s)) (layout_preview (data s)) =
      preview_state (view_manager s) \<and>
    toggle_active (gtk (lib_lighttable_update_btn L s)) (layout_culling_dynamic (data s)) =
      (\<not> preview_state (view_manager s) \<and>
       layout (data s) = DT_LIGHTTABLE_LAYOUT_CULLING_DYNAMIC L) \<and>
    toggle_active (gtk (lib_lighttable_update_btn L s)) (layout_culling_fix (data s)) =
      (\<not> preview_state (view_manager s) \<and>
       layout (data s) = DT_LIGHTTABLE_LAYOUT_CULLING L) \<and>
    toggle_active (gtk (lib_lighttable_update_btn L s)) (layout_zoomable (data s)) =
      (\<not> preview_state (view_manager s) \<and>
       layout (data s) = DT_LIGHTTABLE_LAYOUT_ZOOMABLE L) \<and>
    toggle_active (gtk (lib_lighttable_update_btn L s)) (layout_filemanager (data s)) =
      (\<not> preview_state (view_manager s) \<and>
       layout (data s) \<noteq> DT_LIGHTTABLE_LAYOUT_CULLING_DYNAMIC L \<and>
       layout (data s) \<noteq> DT_LIGHTTABLE_LAYOUT_CULLING L \<and>
       layout (data s) \<noteq> DT_LIGHTTABLE_LAYOUT_ZOOMABLE L)"
proof -
  let ?A = "toggle_active (gtk (lib_lighttable_update_btn L s))"
  let ?a = "active_btn L (data s) (preview_state (view_manager s))"
  have A: "?A (layout_filemanager (data s)) = (layout_filemanager (data s) = ?a)"
    "?A (layout_zoomable (data s)) = (layout_zoomable (data s) = ?a)"
    "?A (layout_culling_fix (data s)) = (layout_culling_fix (data s) = ?a)"
    "?A (layout_culling_dynamic (data s)) = (layout_culling_dynamic (data s) = ?a)"
    "?A (layout_preview (data s)) = (layout_preview (data s) = ?a)"
    by (rule update_btn_layout_button [OF assms(1)], simp add: layout_buttons_def)+
  from assms(1) have d: "distinct (layout_buttons (data s))"
    by (simp add: widgets_set_up_def)
  from assms(2) have e:
    "DT_LIGHTTABLE_LAYOUT_CULLING_DYNAMIC L \<noteq> DT_LIGHTTABLE_LAYOUT_CULLING L"
    "DT_LIGHTTABLE_LAYOUT_CULLING_DYNAMIC L \<noteq> DT_LIGHTTABLE_LAYOUT_ZOOMABLE L"
    "DT_LIGHTTABLE_LAYOUT_CULLING L \<noteq> DT_LIGHTTABLE_LAYOUT_ZOOMABLE L"
    by (auto simp: enumerators_distinct_def)
  show ?thesis
    using d e unfolding layout_buttons_def
    by (simp add: A) (auto simp: active_btn_def)
qed

theorem update_btn_one_button_active_witness:
  "widgets_set_up sample_darktable \<and> enumerators_distinct sample_view_h \<and>
   layout_buttons (data sample_darktable) = [1, 2, 3, 4, 5] \<and>
   layout (data sample_darktable) = DT_LIGHTTABLE_LAYOUT_FILEMANAGER sample_view_h \<and>
   \<not> preview_state (view_manager sample_darktable) \<and>
   map (toggle_active (gtk (lib_lighttable_update_btn sample_view_h sample_darktable)))
     [1, 2, 3, 4, 5] = [True, False, False, False, False]"
proof -
  have v: "layout_buttons (data sample_darktable) = [1, 2, 3, 4, 5]"
    "layout_filemanager (data sample_darktable) = 1"
    "layout_zoomable (data sample_darktable) = 2"
    "layout_culling_fix (data sample_darktable) = 3"
    "layout_culling_dynamic (data sample_darktable) = 4"
    "layout_preview (data sample_darktable) = 5"
    "layout (data sample_darktable) = 1"
    "preview_state (view_manager sample_darktable) = False"
    by (simp_all add: layout_buttons_def sample_darktable_def sample_data_def
        sample_view_manager_def)
  have e: "DT_LIGHTTABLE_LAYOUT_FILEMANAGER sample_view_h = 1"
    "DT_LIGHTTABLE_LAYOUT_ZOOMABLE sample_view_h = 0"
    "DT_LIGHTTABLE_LAYOUT_CULLING sample_view_h = 2"
    "DT_LIGHTTABLE_LAYOUT_CULLING_DYNAMIC sample_view_h = 3"
    by (simp_all add: sample_view_h_def)
  from update_btn_one_button_active [OF sample_set_up(1,2)] sample_set_up(1,2)
  show ?thesis by (simp add: v e)
qed

text \<open>
  Claim C7 says that with an argument the accessor sets the new value. \<^verbatim>\<open>layout_cb\<close> does
  not do so for the argument \<^verbatim>\<open>DT_LIGHTTABLE_LAYOUT_PREVIEW\<close>, a value the binding offers to
  the scripts (line 639): lines 168 to 174 turn the full preview on and return, and
  \<^verbatim>\<open>d->layout\<close> keeps its value. In the filemanager layout (1) a call with the preview
  layout (4) returns 1, and the layout stored and read back afterwards is 1 again, not 4.
\<close>

theorem layout_cb_preview_counterexample:
  "DT_LIGHTTABLE_LAYOUT_PREVIEW sample_view_h = 4 \<and>
   layout (data sample_darktable) = 1 \<and>
   fst (layout_cb sample_view_h sample_darktable (Some 4)) = 1 \<and>
   layout (data (snd (layout_cb sample_view_h sample_darktable (Some 4)))) = 1 \<and>
   fst (layout_cb sample_view_h
          (snd (layout_cb sample_view_h sample_darktable (Some 4))) None) = 1 \<and>
   preview_state (view_manager (snd (layout_cb sample_view_h sample_darktable (Some 4))))"
proof -
  have v: "DT_LIGHTTABLE_LAYOUT_PREVIEW sample_view_h = 4" "layout (data sample_darktable) = 1"
    by (simp_all add: sample_darktable_def sample_data_def sample_view_h_def)
  have a: "layout (data (snd (layout_cb sample_view_h sample_darktable (Some 4)))) = 1"
    by (simp add: layout_cb_def lib_lighttable_get_layout_def Let_def set_layout_layout v)
  have b: "preview_state (view_manager (snd (layout_cb sample_view_h sample_darktable (Some 4))))"
    by (simp add: layout_cb_def lib_lighttable_get_layout_def Let_def
        set_layout_preview_state v)
  have c: "fst (layout_cb sample_view_h s arg) = layout (data s)" for s arg
    by (simp add: layout_cb_def lib_lighttable_get_layout_def Let_def)
  show ?thesis using v a b by (simp add: c)
qed

text \<open>
  Claim C7, amended. The value that \<^verbatim>\<open>layout_cb\<close> and \<^verbatim>\<open>zoom_level_cb\<close> hand to the script
  is the layout and the zoom of the state the call starts in, whatever the argument.
  Without an argument the state stays as it is. With an argument the state is the one the
  setter leaves: the zoom is then the argument, and the layout is the argument unless that
  is \<^verbatim>\<open>DT_LIGHTTABLE_LAYOUT_PREVIEW\<close>, which turns the full preview on and keeps the layout.
\<close>

theorem lua_accessors_return_old_value:
  "fst (layout_cb L s arg) = layout (data s) \<and>
   fst (zoom_level_cb L s zarg) = current_zoom (data s) \<and>
   snd (layout_cb L s None) = s \<and>
   snd (zoom_level_cb L s None) = s \<and>
   snd (layout_cb L s (Some v)) = lib_lighttable_set_layout L s v \<and>
   snd (zoom_level_cb L s (Some z)) = lib_lighttable_set_zoom L s z \<and>
   current_zoom (data (snd (zoom_level_cb L s (Some z)))) = z \<and>
   layout (data (snd (layout_cb L s (Some v)))) =
     (if v = DT_LIGHTTABLE_LAYOUT_PREVIEW L then layout (data s) else v) \<and>
   preview_state (view_manager (snd (layout_cb L s (Some v)))) =
     (v = DT_LIGHTTABLE_LAYOUT_PREVIEW L)"
  by (simp add: layout_cb_def zoom_level_cb_def lib_lighttable_get_layout_def
      lib_lighttable_get_zoom_def Let_def set_layout_layout set_layout_preview_state
      set_zoom_proxy_fields)

theorem lua_accessors_return_old_value_witness:
  "layout (data sample_darktable) = 1 \<and> current_zoom (data sample_darktable) = 5 \<and>
   fst (layout_cb sample_view_h sample_darktable (Some 2)) = 1 \<and>
   layout (data (snd (layout_cb sample_view_h sample_darktable (Some 2)))) = 2 \<and>
   fst (zoom_level_cb sample_view_h sample_darktable (Some 9)) = 5 \<and>
   current_zoom (data (snd (zoom_level_cb sample_view_h sample_darktable (Some 9)))) = 9 \<and>
   fst (layout_cb sample_view_h sample_darktable None) = 1 \<and>
   snd (layout_cb sample_view_h sample_darktable None) = sample_darktable \<and>
   fst (zoom_level_cb sample_view_h sample_darktable None) = 5 \<and>
   snd (zoom_level_cb sample_view_h sample_darktable None) = sample_darktable"
proof -
  have "layout (data sample_darktable) = 1" "current_zoom (data sample_darktable) = 5"
    "DT_LIGHTTABLE_LAYOUT_PREVIEW sample_view_h = 4"
    by (simp_all add: sample_darktable_def sample_data_def sample_view_h_def)
  then show ?thesis
    using lua_accessors_return_old_value [of sample_view_h sample_darktable "Some 2" "Some 9" 2 9]
      lua_accessors_return_old_value [of sample_view_h sample_darktable None None 2 9]
    by simp
qed

text \<open>
  Claim C8. \<^verbatim>\<open>_lib_lighttable_set_layout\<close> with \<^verbatim>\<open>DT_LIGHTTABLE_LAYOUT_PREVIEW\<close> leaves
  \<^verbatim>\<open>d->layout\<close>, \<^verbatim>\<open>d->base_layout\<close> and the two layout keys of the configuration as they
  were, in every state, and the full preview is on afterwards. In a state in which the
  spin button shows the current zoom, which is every state the module gets into (lemma
  \<open>reachable_set_up\<close>), \<^verbatim>\<open>d->current_zoom\<close> is unchanged too, and the state after
  the call differs from the state before it in the view manager's preview state and in
  GTK's widgets only.
\<close>

theorem set_layout_preview_frame:
  "layout (data (lib_lighttable_set_layout L s (DT_LIGHTTABLE_LAYOUT_PREVIEW L)))
     = layout (data s) \<and>
   base_layout (data (lib_lighttable_set_layout L s (DT_LIGHTTABLE_LAYOUT_PREVIEW L)))
     = base_layout (data s) \<and>
   conf (lib_lighttable_set_layout L s (DT_LIGHTTABLE_LAYOUT_PREVIEW L))
       ''plugins/lighttable/layout'' = conf s ''plugins/lighttable/layout'' \<and>
   conf (lib_lighttable_set_layout L s (DT_LIGHTTABLE_LAYOUT_PREVIEW L))
       ''plugins/lighttable/base_layout'' = conf s ''plugins/lighttable/base_layout'' \<and>
   preview_state (view_manager (lib_lighttable_set_layout L s (DT_LIGHTTABLE_LAYOUT_PREVIEW L)))
     \<and>
   (zoom_shown L s \<longrightarrow>
      current_zoom (data (lib_lighttable_set_layout L s (DT_LIGHTTABLE_LAYOUT_PREVIEW L)))
        = current_zoom (data s) \<and>
      lib_lighttable_set_layout L s (DT_LIGHTTABLE_LAYOUT_PREVIEW L) =
        s\<lparr>view_manager :=
             (if preview_state (view_manager s) then view_manager s
              else dt_view_lighttable_set_preview_state (view_manager s) True True
                     (fullpreview_focus (data s)) DT_LIGHTTABLE_CULLING_RESTRICTION_AUTO),
           gtk := gtk (lib_lighttable_set_layout L s (DT_LIGHTTABLE_LAYOUT_PREVIEW L))\<rparr>)"
proof -
  let ?P = "DT_LIGHTTABLE_LAYOUT_PREVIEW L"
  let ?vm = "if preview_state (view_manager s) then view_manager s
              else dt_view_lighttable_set_preview_state (view_manager s) True True
                     (fullpreview_focus (data s)) DT_LIGHTTABLE_CULLING_RESTRICTION_AUTO"
  have unfold: "lib_lighttable_set_layout L s ?P =
      lib_lighttable_update_btn L (s\<lparr>view_manager := ?vm\<rparr>)"
    by (simp add: lib_lighttable_set_layout_def dt_view_lighttable_preview_state_def)
  have c: "conf (lib_lighttable_set_layout L s ?P) ''plugins/lighttable/layout''
             = conf s ''plugins/lighttable/layout''"
    "conf (lib_lighttable_set_layout L s ?P) ''plugins/lighttable/base_layout''
             = conf s ''plugins/lighttable/base_layout''"
    unfolding unfold by (simp_all add: update_btn_fields)
  have shown: "lib_lighttable_set_layout L s ?P =
        s\<lparr>view_manager := ?vm, gtk := gtk (lib_lighttable_set_layout L s ?P)\<rparr>"
    and cz: "current_zoom (data (lib_lighttable_set_layout L s ?P)) = current_zoom (data s)"
    if "zoom_shown L s"
  proof -
    from that have "zoom_shown L (s\<lparr>view_manager := ?vm\<rparr>)"
      by (simp add: zoom_shown_def)
    from update_btn_when_zoom_shown [OF this]
    have "lib_lighttable_update_btn L (s\<lparr>view_manager := ?vm\<rparr>) =
       s\<lparr>view_manager := ?vm, gtk := gtk (lib_lighttable_update_btn L (s\<lparr>view_manager := ?vm\<rparr>))\<rparr>"
      by simp
    then show "lib_lighttable_set_layout L s ?P =
        s\<lparr>view_manager := ?vm, gtk := gtk (lib_lighttable_set_layout L s ?P)\<rparr>"
      unfolding unfold .
    then have "data (lib_lighttable_set_layout L s ?P) = data s"
      by (metis (no_types) darktable_t.select_convs(1) darktable_t.surjective
          darktable_t.update_convs(2,3))
    then show "current_zoom (data (lib_lighttable_set_layout L s ?P)) = current_zoom (data s)"
      by simp
  qed
  show ?thesis
    using c shown cz
    by (simp add: set_layout_layout set_layout_base_layout set_layout_preview_state)
qed

theorem set_layout_preview_frame_witness:
  "zoom_shown sample_view_h sample_darktable \<and>
   \<not> preview_state (view_manager sample_darktable) \<and>
   data (lib_lighttable_set_layout sample_view_h sample_darktable
           (DT_LIGHTTABLE_LAYOUT_PREVIEW sample_view_h)) = sample_data \<and>
   conf (lib_lighttable_set_layout sample_view_h sample_darktable
           (DT_LIGHTTABLE_LAYOUT_PREVIEW sample_view_h)) = sample_conf \<and>
   preview_state (view_manager (lib_lighttable_set_layout sample_view_h sample_darktable
           (DT_LIGHTTABLE_LAYOUT_PREVIEW sample_view_h)))"
proof -
  let ?X = "lib_lighttable_set_layout sample_view_h sample_darktable
           (DT_LIGHTTABLE_LAYOUT_PREVIEW sample_view_h)"
  note t = set_layout_preview_frame [of sample_view_h sample_darktable]
  from t sample_set_up(3) have "?X =
        sample_darktable\<lparr>view_manager :=
             (if preview_state (view_manager sample_darktable) then view_manager sample_darktable
              else dt_view_lighttable_set_preview_state (view_manager sample_darktable) True True
                     (fullpreview_focus (data sample_darktable))
                     DT_LIGHTTABLE_CULLING_RESTRICTION_AUTO),
           gtk := gtk ?X\<rparr>"
    by blast
  then have "data ?X = data sample_darktable \<and> conf ?X = conf sample_darktable"
    by (metis (no_types) darktable_t.select_convs(1,4) darktable_t.surjective
        darktable_t.update_convs(2,3))
  moreover from t have "preview_state (view_manager ?X)" by blast
  ultimately show ?thesis
    using sample_set_up(3)
    by (simp add: sample_darktable_def sample_view_manager_def)
qed




text \<open>
  Claim C10. After \<^verbatim>\<open>_lib_lighttable_set_zoom(self, z)\<close> the getter returns \<open>z\<close>, for every
  integer \<open>z\<close>: the assignment to \<^verbatim>\<open>d->current_zoom\<close> comes after the spin button was set,
  so that neither the clamping of the spin button nor its \<^verbatim>\<open>value-changed\<close> handler has
  the last word.
\<close>

theorem set_zoom_then_get_zoom:
  "lib_lighttable_get_zoom (lib_lighttable_set_zoom L s z) = z"
  by (simp add: lib_lighttable_get_zoom_def set_zoom_proxy_fields)

theorem set_zoom_then_get_zoom_witness:
  "lib_lighttable_get_zoom sample_darktable = 5 \<and>
   lib_lighttable_get_zoom (lib_lighttable_set_zoom sample_view_h sample_darktable 100) = 100 \<and>
   spin_value (gtk (lib_lighttable_set_zoom sample_view_h sample_darktable 100)) 7 = 25"
proof -
  have "lib_lighttable_get_zoom sample_darktable = 5"
    by (simp add: lib_lighttable_get_zoom_def sample_darktable_def sample_data_def)
  moreover have "zoom (data sample_darktable) = 7"
    by (simp add: sample_darktable_def sample_data_def)
  moreover have "spin_clamp sample_view_h 100 = 25"
    by (simp add: spin_clamp_def sample_view_h_def)
  ultimately show ?thesis
    using set_zoom_then_get_zoom [of sample_view_h sample_darktable 100]
      set_zoom_proxy_fields(3) [of sample_view_h sample_darktable 100]
    by simp
qed

end
